theory Spec2Isabelle
  imports Complex_Main "HOL-Library.Word" "HOL-Library.Multiset"
begin

section \<open>Python values, errors and the target data model\<close>

text \<open>
  The translation rules of \<^verbatim>\<open>_op_translations.py\<close> are Python functions that
  read a source node (a dictionary), mutate the shared initializer list and either return a
  list of target objects or raise. Each rule is embedded as a function that returns the
  raised exception or the returned list, together with the initializer list as the rule
  leaves it (an exception raised after an append keeps the append).
\<close>

datatype error =
    AttributeError string
  | NotImplementedError string
  | IndexError
  | KeyError
  | ValueError
  | TypeError
  | AssertionError
  | SyntaxError
  | NameError
  | OverflowError

text \<open>Element types of the target tensor format (\<^verbatim>\<open>TensorProto\<close> codes; the numpy
  dtype of the same name is identified with its code, as the two \<^verbatim>\<open>onnx.mapping\<close>
  tables do).\<close>

datatype dtype =
    FLOAT | UINT8 | INT8 | UINT16 | INT16 | INT32 | INT64 | BOOL
  | FLOAT16 | DOUBLE | UINT32 | UINT64

text \<open>A Python or numpy scalar as it is handed to the target library. The type \<open>'f\<close>
  stands for floating-point numbers, whose arithmetic is not modelled; \<open>VU16\<close> is an
  unsigned 16-bit integer, the result of viewing a half-precision value as \<^verbatim>\<open>uint16\<close>.\<close>

datatype 'f val = VInt int | VFloat 'f | VNone | VStr string | VU16 "16 word"

definition ebind :: "error + 'a \<Rightarrow> ('a \<Rightarrow> error + 'b) \<Rightarrow> error + 'b" where
  "ebind m f = (case m of Inl e \<Rightarrow> Inl e | Inr x \<Rightarrow> f x)"

definition py_getitem :: "'a list \<Rightarrow> nat \<Rightarrow> error + 'a" where
  "py_getitem xs i = (if i < length xs then Inr (xs ! i) else Inl IndexError)"

definition py_setitem :: "'a list \<Rightarrow> nat \<Rightarrow> 'a \<Rightarrow> error + 'a list" where
  "py_setitem xs i v = (if i < length xs then Inr (xs[i := v]) else Inl IndexError)"

text \<open>A dictionary read from the graph's JSON is an association list; \<^verbatim>\<open>d.get(k)\<close>
  is \<open>map_of d k\<close>.\<close>

type_synonym attrs = "(string \<times> string) list"

text \<open>A source node. An entry of \<open>n_inputs\<close> is (producer reference, output index); a
  node without an \<^verbatim>\<open>"attrs"\<close> entry has \<open>n_attrs = []\<close>, which is what
  \<^verbatim>\<open>node.get("attrs", {})\<close> makes of it.\<close>

record src_node =
  n_name :: string
  n_op :: string
  n_inputs :: "(nat \<times> nat) list"
  n_attrs :: attrs

text \<open>\<^verbatim>\<open>onnx.helper.make_tensor(name, data_type, dims, vals, raw=False)\<close>: the record of
  the four arguments.\<close>

record 'f tensor =
  t_name :: string
  t_data_type :: dtype
  t_dims :: "nat list"
  t_vals :: "'f val list"

text \<open>A keyword argument of \<^verbatim>\<open>make_node\<close>, as the Python value passed: a scalar, a
  list, a tensor, or an element-type code.\<close>

datatype 'f aval = AVal "'f val" | AList "'f val list" | ATensor "'f tensor" | AType dtype

text \<open>\<^verbatim>\<open>onnx.helper.make_node(op_type, inputs, outputs, name=None, **kwargs)\<close>.\<close>

record 'f node_proto =
  op_type :: string
  node_input :: "string list"
  node_output :: "string list"
  node_name :: "string option"
  attributes :: "(string \<times> 'f aval) list"

text \<open>What a rule returns is a list of value descriptors
  (\<^verbatim>\<open>make_tensor_value_info(name, elem_type, shape)\<close>) and computational nodes.\<close>

datatype 'f item = ValueInfo string dtype "nat list" | Node "'f node_proto"

definition make_node ::
  "string \<Rightarrow> string list \<Rightarrow> string list \<Rightarrow> string option \<Rightarrow> (string \<times> 'f aval) list \<Rightarrow> 'f item" where
  "make_node op ins outs nm kw =
     Node \<lparr>op_type = op, node_input = ins, node_output = outs, node_name = nm, attributes = kw\<rparr>"

text \<open>The keyword arguments every rule receives. \<open>kw_proc_nodes\<close> holds the names of the
  objects produced so far (only \<^verbatim>\<open>.name\<close> is read from them); \<open>kw_in_shape\<close> is
  \<^verbatim>\<open>kwargs.get('in_shape')\<close>, the list of input shapes if there is one.\<close>

record 'f kwargs =
  kw_proc_nodes :: "string list"
  kw_index_lookup :: "nat list"
  kw_initializer :: "'f tensor list"
  kw_opset_version :: int
  kw_in_type :: dtype
  kw_in_shape :: "int list list option"
  kw_idx :: nat

type_synonym 'f result = "(error + 'f item list) \<times> 'f tensor list"

section \<open>Attribute helpers\<close>

definition get_boolean_attribute_value :: "attrs \<Rightarrow> string \<Rightarrow> int" where
  "get_boolean_attribute_value attrs attr_name =
     (if map_of attrs attr_name = Some ''True'' \<or> map_of attrs attr_name = Some ''1''
      then 1 else 0)"

fun get_inputs_loop :: "'f kwargs \<Rightarrow> (nat \<times> nat) list \<Rightarrow> string list \<Rightarrow> error + string list" where
  "get_inputs_loop kw [] input_nodes = Inr input_nodes"
| "get_inputs_loop kw (ip # rest) input_nodes =
     (case py_getitem (kw_index_lookup kw) (fst ip) of
        Inl e \<Rightarrow> Inl e
      | Inr input_node_id \<Rightarrow>
         (case py_getitem (kw_proc_nodes kw) input_node_id of
            Inl e \<Rightarrow> Inl e
          | Inr nm \<Rightarrow> get_inputs_loop kw rest (input_nodes @ [nm])))"

definition get_inputs :: "src_node \<Rightarrow> 'f kwargs \<Rightarrow> error + (string \<times> string list \<times> attrs)" where
  "get_inputs node kw =
     ebind (get_inputs_loop kw (n_inputs node) [])
       (\<lambda>input_nodes. Inr (n_name node, input_nodes, n_attrs node))"


subsection \<open>\<^verbatim>\<open>transform_padding\<close>\<close>

text \<open>The \<^verbatim>\<open>for idx in range(0, num_pad_values)\<close> loop, over the list of indices
  still to visit, with the output list and the two write positions as loop state.\<close>

fun transform_padding_loop ::
  "'f val list \<Rightarrow> nat list \<Rightarrow> 'f val list \<Rightarrow> nat \<Rightarrow> nat \<Rightarrow> error + 'f val list" where
  "transform_padding_loop pad_width [] onnx_pad_width start_index end_index =
     Inr onnx_pad_width"
| "transform_padding_loop pad_width (idx # rest) onnx_pad_width start_index end_index =
     (if idx mod 2 = 0 then
        (case py_getitem pad_width idx of
           Inl e \<Rightarrow> Inl e
         | Inr v \<Rightarrow>
            (case py_setitem onnx_pad_width start_index v of
               Inl e \<Rightarrow> Inl e
             | Inr w \<Rightarrow> transform_padding_loop pad_width rest w (start_index + 1) end_index))
      else
        (case py_getitem pad_width idx of
           Inl e \<Rightarrow> Inl e
         | Inr v \<Rightarrow>
            (case py_setitem onnx_pad_width end_index v of
               Inl e \<Rightarrow> Inl e
             | Inr w \<Rightarrow> transform_padding_loop pad_width rest w start_index (end_index + 1))))"

definition transform_padding :: "'f val list \<Rightarrow> error + 'f val list" where
  "transform_padding pad_width =
     (let num_pad_values = length pad_width;
          onnx_pad_width = replicate num_pad_values (VInt 0);
          start_index = 0;
          end_index = num_pad_values div 2
      in transform_padding_loop pad_width [0 ..< num_pad_values] onnx_pad_width
           start_index end_index)"

subsection \<open>\<^verbatim>\<open>parse_helper\<close>\<close>

text \<open>The pattern \<^verbatim>\<open>\([0-9L|,| ]+\)\<close>: an opening parenthesis, one or more characters of
  the class, a closing parenthesis. Neither parenthesis is in the class, so the greedy
  repetition can only stop at the first character outside the class, and the pattern
  matches at a position exactly when the longest run of class characters after the
  opening parenthesis is not empty and is followed by a closing parenthesis.
  \<open>match_here\<close> gives the length of the match at the start of the string.\<close>

definition tuple_char :: "char \<Rightarrow> bool" where
  "tuple_char c = (c \<in> set ''0123456789L|, '')"

definition match_here :: "string \<Rightarrow> nat option" where
  "match_here s =
     (case s of
        [] \<Rightarrow> None
      | c # rest \<Rightarrow>
          if c = CHR ''('' then
            (let run = takeWhile tuple_char rest; after = dropWhile tuple_char rest
             in if run \<noteq> [] \<and> (case after of [] \<Rightarrow> False | a # x \<Rightarrow> a = CHR '')'')
                then Some (length run + 2) else None)
          else None)"

text \<open>\<^verbatim>\<open>tuple_re.search(s).span()\<close>: the leftmost match, tried from every start
  position in turn; \<open>pos\<close> is the position of \<open>s\<close> in the whole string.\<close>

fun re_search :: "string \<Rightarrow> nat \<Rightarrow> (nat \<times> nat) option" where
  "re_search [] pos = None"
| "re_search (c # rest) pos =
     (case match_here (c # rest) of
        Some l \<Rightarrow> Some (pos, pos + l)
      | None \<Rightarrow> re_search rest (Suc pos))"

text \<open>The value of an attribute after parsing: what \<^verbatim>\<open>eval\<close> returns on a string
  the pattern admits, or the caller's default.\<close>

datatype pyobj = PNone | PInt int | PTuple "int list" | PList "int list"

text \<open>\<^verbatim>\<open>eval\<close> is only ever called on a string that the pattern matches as a whole:
  one pair of parentheses around digits, \<^verbatim>\<open>L\<close>, \<^verbatim>\<open>|\<close>, commas and spaces.
  On these strings a Python 3 expression is a comma-separated sequence of operands joined
  by \<^verbatim>\<open>|\<close>, an operand being a decimal literal or a name made of \<^verbatim>\<open>L\<close> and
  digits. Anything else is a syntax error; a name is not defined and raises when it is
  evaluated; with no comma the value is the number itself, not a tuple.\<close>

datatype tok = TNum nat | TName | TBar | TComma

definition is_digit :: "char \<Rightarrow> bool" where
  "is_digit c = (c \<in> set ''0123456789'')"

definition digit_val :: "char \<Rightarrow> nat" where
  "digit_val c = of_char c - 48"

definition decimal :: "string \<Rightarrow> nat" where
  "decimal ds = foldl (\<lambda>acc c. 10 * acc + digit_val c) 0 ds"

definition literal_ok :: "string \<Rightarrow> bool" where
  "literal_ok ds = (case ds of [] \<Rightarrow> False | d # x \<Rightarrow> d \<noteq> CHR ''0'' \<or> list_all (\<lambda>c. c = CHR ''0'') ds)"

function lex :: "string \<Rightarrow> error + tok list" where
  "lex [] = Inr []"
| "lex (c # cs) =
     (if c = CHR '' '' then lex cs
      else if c = CHR '','' then (case lex cs of Inl e \<Rightarrow> Inl e | Inr ts \<Rightarrow> Inr (TComma # ts))
      else if c = CHR ''|'' then (case lex cs of Inl e \<Rightarrow> Inl e | Inr ts \<Rightarrow> Inr (TBar # ts))
      else if is_digit c then
        (if literal_ok (c # takeWhile is_digit cs) then
           (case lex (dropWhile is_digit cs) of
              Inl e \<Rightarrow> Inl e
            | Inr ts \<Rightarrow> Inr (TNum (decimal (c # takeWhile is_digit cs)) # ts))
         else Inl SyntaxError)
      else if c = CHR ''L'' then
        (case lex (dropWhile (\<lambda>d. d = CHR ''L'' \<or> is_digit d) cs) of
           Inl e \<Rightarrow> Inl e
         | Inr ts \<Rightarrow> Inr (TName # ts))
      else Inl SyntaxError)"
  by pat_completeness auto
termination
  by (relation "measure length") (auto simp: length_dropWhile_le less_Suc_eq_le)

fun split_commas :: "tok list \<Rightarrow> tok list list" where
  "split_commas [] = [[]]"
| "split_commas (t # ts) =
     (if t = TComma then [] # split_commas ts
      else (case split_commas ts of g # gs \<Rightarrow> (t # g) # gs | [] \<Rightarrow> [[t]]))"

fun is_operand :: "tok \<Rightarrow> bool" where
  "is_operand (TNum n) = True"
| "is_operand TName = True"
| "is_operand TBar = False"
| "is_operand TComma = False"

fun or_expr_ok :: "tok list \<Rightarrow> bool" where
  "or_expr_ok [t] = is_operand t"
| "or_expr_ok (t # b # rest) = (is_operand t \<and> b = TBar \<and> or_expr_ok rest)"
| "or_expr_ok [] = False"

fun or_expr_value :: "tok list \<Rightarrow> int" where
  "or_expr_value [] = 0"
| "or_expr_value (TNum n # rest) = or (int n) (or_expr_value rest)"
| "or_expr_value (t # rest) = or_expr_value rest"

definition eval_inner :: "string \<Rightarrow> error + pyobj" where
  "eval_inner inner =
     (case lex inner of
        Inl e \<Rightarrow> Inl e
      | Inr toks \<Rightarrow>
          if toks = [] then Inr (PTuple [])
          else
            let groups = split_commas toks;
                has_comma = (1 < length groups);
                exprs = (if has_comma \<and> last groups = [] then butlast groups else groups)
            in if \<not> list_all or_expr_ok exprs then Inl SyntaxError
               else if TName \<in> set toks then Inl NameError
               else if has_comma then Inr (PTuple (map or_expr_value exprs))
               else Inr (PInt (or_expr_value (hd exprs))))"

definition py_eval :: "string \<Rightarrow> error + pyobj" where
  "py_eval s =
     (case s of
        [] \<Rightarrow> Inl SyntaxError
      | c # rest \<Rightarrow>
          if c = CHR ''('' \<and> rest \<noteq> [] \<and> last rest = CHR '')''
          then eval_inner (butlast rest) else Inl SyntaxError)"

definition parse_helper :: "attrs \<Rightarrow> string \<Rightarrow> pyobj \<Rightarrow> error + pyobj" where
  "parse_helper attrs attrs_name alt_value =
     (if attrs = [] then Inr alt_value
      else
        (case map_of attrs attrs_name of
           None \<Rightarrow> Inr alt_value
         | Some attrs_str \<Rightarrow>
            (case re_search attrs_str 0 of
               Some match_span \<Rightarrow>
                 if match_span = (0, length attrs_str) then py_eval attrs_str
                 else Inl (AttributeError
                             (''Malformed '' @ attrs_name @ '' dimensions: '' @ attrs_str))
             | None \<Rightarrow> Inr alt_value)))"

subsection \<open>Python string operations\<close>

text \<open>Strings are sequences of code points below 256. \<^verbatim>\<open>str.strip()\<close> and
  \<^verbatim>\<open>int()\<close> skip the same white space: tab to carriage return, the four separators
  28 to 31, the space, and the two Latin-1 spaces 133 and 160.\<close>

definition py_isspace :: "char \<Rightarrow> bool" where
  "py_isspace c =
     (let n = (of_char c :: nat)
      in (9 \<le> n \<and> n \<le> 13) \<or> (28 \<le> n \<and> n \<le> 32) \<or> n = 133 \<or> n = 160)"

definition py_strip :: "string \<Rightarrow> string" where
  "py_strip s = rev (dropWhile py_isspace (rev (dropWhile py_isspace s)))"

text \<open>\<^verbatim>\<open>s.split(sep)\<close> for a separator of one character: never an empty list.\<close>

fun py_split :: "char \<Rightarrow> string \<Rightarrow> string list" where
  "py_split sep [] = [[]]"
| "py_split sep (c # cs) =
     (if c = sep then [] # py_split sep cs
      else (case py_split sep cs of w # ws \<Rightarrow> (c # w) # ws | [] \<Rightarrow> [[c]]))"

text \<open>\<^verbatim>\<open>s.replace(c, "")\<close> for a single character \<open>c\<close>.\<close>

definition py_remove :: "char \<Rightarrow> string \<Rightarrow> string" where
  "py_remove c s = filter (\<lambda>d. d \<noteq> c) s"

text \<open>\<^verbatim>\<open>int(s)\<close> on a string: optional white space around an optional sign and a
  non-empty run of decimal digits, in which single underscores may separate digits.\<close>

definition digits_ok :: "string \<Rightarrow> bool" where
  "digits_ok body = list_all (\<lambda>g. g \<noteq> [] \<and> list_all is_digit g) (py_split (CHR ''_'') body)"

definition py_int :: "string \<Rightarrow> error + int" where
  "py_int s =
     (let t = py_strip s;
          neg = (case t of [] \<Rightarrow> False | c # x \<Rightarrow> c = CHR ''-'');
          body = (case t of [] \<Rightarrow> [] | c # rest \<Rightarrow> if c = CHR ''-'' \<or> c = CHR ''+'' then rest else t)
      in if digits_ok body
         then Inr ((if neg then - 1 else 1) * int (decimal (py_remove (CHR ''_'') body)))
         else Inl ValueError)"

text \<open>\<^verbatim>\<open>str(n)\<close> for a natural number.\<close>

fun str_nat :: "nat \<Rightarrow> string" where
  "str_nat n = (if n < 10 then [char_of (48 + n)] else str_nat (n div 10) @ [char_of (48 + n mod 10)])"

declare str_nat.simps [simp del]

subsection \<open>\<^verbatim>\<open>convert_string_to_list\<close>\<close>

text \<open>One round of the loop body: the element to append, if any.\<close>

definition convert_element :: "string \<Rightarrow> error + int option option" where
  "convert_element val0 =
     (let val = py_strip val0;
          val = py_remove (CHR ''('') val;
          val = py_remove (CHR '')'') val;
          val = py_remove (CHR ''L'') val;
          val = py_remove (CHR ''['') val;
          val = py_remove (CHR '']'') val
      in if val = ''None'' then Inr (Some None)
         else if val \<noteq> '''' then
           (case py_int val of Inl e \<Rightarrow> Inl e | Inr i \<Rightarrow> Inr (Some (Some i)))
         else Inr None)"

fun convert_string_loop :: "string list \<Rightarrow> int option list \<Rightarrow> error + int option list" where
  "convert_string_loop [] result_list = Inr result_list"
| "convert_string_loop (val # rest) result_list =
     (case convert_element val of
        Inl e \<Rightarrow> Inl e
      | Inr None \<Rightarrow> convert_string_loop rest result_list
      | Inr (Some x) \<Rightarrow> convert_string_loop rest (result_list @ [x]))"

text \<open>The argument is \<^verbatim>\<open>attrs.get(...)\<close>, so it may be \<^verbatim>\<open>None\<close>, which has no
  \<^verbatim>\<open>split\<close>. An element of the result is an integer or \<^verbatim>\<open>None\<close>.\<close>

definition convert_string_to_list :: "string option \<Rightarrow> error + int option list" where
  "convert_string_to_list string_val =
     (case string_val of
        None \<Rightarrow> Inl (AttributeError ''NoneType object has no attribute split'')
      | Some s \<Rightarrow> convert_string_loop (py_split (CHR '','') s) [])"

section \<open>Constants\<close>

subsection \<open>The numeric library\<close>

text \<open>Floating-point numbers and numpy's conversions and arithmetic are taken as given: a
  record of the operations the rules call.
  \<^item> \<open>np_dtype\<close> reads an element type from its name (\<^verbatim>\<open>np.dtype(s)\<close>; an unknown
    name is a \<^verbatim>\<open>TypeError\<close>);
  \<^item> \<open>np_other\<close> converts one element to an element type, or fails the way numpy does
    (every conversion except the one of a Python integer to \<^verbatim>\<open>int64\<close>, which is
    written out below);
  \<^item> \<open>np_view_uint16\<close> is the 16-bit pattern of a half-precision element;
  \<^item> \<open>np_to_array\<close> is \<^verbatim>\<open>numpy_helper.to_array\<close>, the elements of a stored tensor;
  \<^item> \<open>np_result_type\<close> is the element type of an array combined with a scalar;
  \<^item> \<open>np_mul\<close>, \<open>np_sub\<close>, \<open>np_add\<close>, \<open>np_truediv\<close> and \<open>np_pow\<close> are numpy's
    \<^verbatim>\<open>*\<close>, \<^verbatim>\<open>-\<close>, \<^verbatim>\<open>+\<close>, \<^verbatim>\<open>/\<close> and \<^verbatim>\<open>**\<close> on elements, left
    operand first;
  \<^item> \<open>py_float\<close> is Python's \<^verbatim>\<open>float(s)\<close> on a string (\<open>None\<close> for a
    \<^verbatim>\<open>ValueError\<close>), \<open>py_float_lit\<close> the float that a literal or a small integer
    denotes, \<open>py_inf\<close> is \<^verbatim>\<open>np.inf\<close>, \<open>py_float_neg\<close>, \<open>py_float_mul\<close> and
    \<open>py_float_is_zero\<close> are negation, \<^verbatim>\<open>*\<close> and \<^verbatim>\<open>== 0\<close> on floats, and
    \<open>py_int_of_float\<close> is \<^verbatim>\<open>int(x)\<close> on a float, which fails on an infinity or a
    NaN.\<close>

datatype np_failure = NpValueError | NpTypeError | NpOverflowError

definition np_raise :: "np_failure \<Rightarrow> error" where
  "np_raise f = (case f of NpValueError \<Rightarrow> ValueError | NpTypeError \<Rightarrow> TypeError
                 | NpOverflowError \<Rightarrow> OverflowError)"

record 'f numpy =
  np_dtype :: "string \<Rightarrow> dtype option"
  np_other :: "dtype \<Rightarrow> 'f val \<Rightarrow> np_failure + 'f val"
  np_view_uint16 :: "'f val \<Rightarrow> 16 word"
  np_to_array :: "'f tensor \<Rightarrow> 'f val list"
  np_result_type :: "dtype \<Rightarrow> dtype \<Rightarrow> dtype"
  np_mul :: "'f val \<Rightarrow> 'f val \<Rightarrow> 'f val"
  np_sub :: "'f val \<Rightarrow> 'f val \<Rightarrow> 'f val"
  np_add :: "'f val \<Rightarrow> 'f val \<Rightarrow> 'f val"
  np_truediv :: "'f val \<Rightarrow> 'f val \<Rightarrow> 'f val"
  np_pow :: "'f val \<Rightarrow> 'f val \<Rightarrow> 'f val"
  py_float :: "string \<Rightarrow> 'f option"
  py_float_lit :: "rat \<Rightarrow> 'f"
  py_inf :: "'f"
  py_float_neg :: "'f \<Rightarrow> 'f"
  py_float_mul :: "'f \<Rightarrow> 'f \<Rightarrow> 'f"
  py_float_is_zero :: "'f \<Rightarrow> bool"
  py_int_of_float :: "'f \<Rightarrow> np_failure + int"

text \<open>A numpy scalar or one-dimensional array: element type, shape, elements.\<close>

record 'f ndarray =
  a_dtype :: dtype
  a_shape :: "nat list"
  a_data :: "'f val list"

definition np_convert :: "'f numpy \<Rightarrow> dtype \<Rightarrow> 'f val \<Rightarrow> error + 'f val" where
  "np_convert np dt v = (case np_other np dt v of Inl f \<Rightarrow> Inl (np_raise f) | Inr w \<Rightarrow> Inr w)"

definition np_elem :: "'f numpy \<Rightarrow> dtype \<Rightarrow> 'f val \<Rightarrow> error + 'f val" where
  "np_elem np dt v =
     (case v of
        VInt i \<Rightarrow>
          if dt = INT64 then
            (if - (2 ^ 63) \<le> i \<and> i < 2 ^ 63 then Inr (VInt i) else Inl OverflowError)
          else np_convert np dt v
      | VNone \<Rightarrow> if dt = INT64 then Inl TypeError else np_convert np dt v
      | VFloat x \<Rightarrow> np_convert np dt v
      | VStr s \<Rightarrow> np_convert np dt v
      | VU16 w \<Rightarrow> np_convert np dt v)"

fun np_elems :: "'f numpy \<Rightarrow> dtype \<Rightarrow> 'f val list \<Rightarrow> error + 'f val list" where
  "np_elems np dt [] = Inr []"
| "np_elems np dt (v # vs) =
     (case np_elem np dt v of
        Inl e \<Rightarrow> Inl e
      | Inr w \<Rightarrow> (case np_elems np dt vs of Inl e \<Rightarrow> Inl e | Inr ws \<Rightarrow> Inr (w # ws)))"

text \<open>\<^verbatim>\<open>np.array(xs, dtype=dt)\<close> for a flat list, and \<^verbatim>\<open>np.int64(x)\<close>,
  \<^verbatim>\<open>np.float32(x)\<close> and the like for one value.\<close>

definition np_array :: "'f numpy \<Rightarrow> 'f val list \<Rightarrow> dtype \<Rightarrow> error + 'f ndarray" where
  "np_array np xs dt =
     ebind (np_elems np dt xs) (\<lambda>ws. Inr \<lparr>a_dtype = dt, a_shape = [length xs], a_data = ws\<rparr>)"

definition np_scalar :: "'f numpy \<Rightarrow> dtype \<Rightarrow> 'f val \<Rightarrow> error + 'f ndarray" where
  "np_scalar np dt x =
     ebind (np_elem np dt x) (\<lambda>w. Inr \<lparr>a_dtype = dt, a_shape = [], a_data = [w]\<rparr>)"

subsection \<open>Rules as state transformers\<close>

text \<open>A rule body runs against the shared initializer list: it yields an exception or a
  value, and the list as it then is.\<close>

type_synonym ('f, 'a) st = "'f tensor list \<Rightarrow> (error + 'a) \<times> 'f tensor list"

definition sreturn :: "'a \<Rightarrow> ('f, 'a) st" where
  "sreturn x ini = (Inr x, ini)"

definition sraise :: "error \<Rightarrow> ('f, 'a) st" where
  "sraise e ini = (Inl e, ini)"

definition slift :: "error + 'a \<Rightarrow> ('f, 'a) st" where
  "slift m ini = (m, ini)"

definition sbind :: "('f, 'a) st \<Rightarrow> ('a \<Rightarrow> ('f, 'b) st) \<Rightarrow> ('f, 'b) st" where
  "sbind m f ini = (case m ini of (Inl e, ini') \<Rightarrow> (Inl e, ini') | (Inr x, ini') \<Rightarrow> f x ini')"

text \<open>A list display \<^verbatim>\<open>[e1, e2, ...]\<close> evaluates its elements from left to right.\<close>

fun slist :: "('f, 'a) st list \<Rightarrow> ('f, 'a list) st" where
  "slist [] = sreturn []"
| "slist (m # ms) = sbind m (\<lambda>x. sbind (slist ms) (\<lambda>xs. sreturn (x # xs)))"

subsection \<open>The constant materializers\<close>

definition create_const_scalar_node :: "string \<Rightarrow> 'f ndarray \<Rightarrow> ('f, 'f item) st" where
  "create_const_scalar_node input_name value ini =
     (let input_type = a_dtype value;
          value_node = ValueInfo input_name input_type [];
          tensor_node = \<lparr>t_name = input_name, t_data_type = input_type, t_dims = [],
                         t_vals = a_data value\<rparr>
      in (Inr value_node, ini @ [tensor_node]))"

definition create_const_node :: "string \<Rightarrow> 'f ndarray \<Rightarrow> ('f, 'f item) st" where
  "create_const_node input_name value ini =
     (let input_type = a_dtype value;
          input_shape = a_shape value;
          value_node = ValueInfo input_name input_type input_shape;
          tensor_node = \<lparr>t_name = input_name, t_data_type = input_type, t_dims = input_shape,
                         t_vals = a_data value\<rparr>
      in (Inr value_node, ini @ [tensor_node]))"

text \<open>\<^verbatim>\<open>create_tensor\<close> stores the list it was given, not the converted array, except
  for half precision, where it stores the array's \<^verbatim>\<open>uint16\<close> view. The element type is
  always given in this file as \<^verbatim>\<open>'int64'\<close>, \<^verbatim>\<open>'float32'\<close> or a numpy dtype object,
  for which \<^verbatim>\<open>dtype == np.float16\<close> holds exactly when it is half precision.\<close>

definition create_tensor :: "'f numpy \<Rightarrow> 'f val list \<Rightarrow> string \<Rightarrow> dtype \<Rightarrow> ('f, 'f item) st" where
  "create_tensor np tensor_list tensor_name dt ini =
     (case np_array np tensor_list dt of
        Inl e \<Rightarrow> (Inl e, ini)
      | Inr tensor_np \<Rightarrow>
          let data_type = a_dtype tensor_np;
              dims = a_shape tensor_np;
              tensor_node = ValueInfo tensor_name data_type dims;
              tensor_list = (if dt = FLOAT16
                             then map (\<lambda>x. VU16 (np_view_uint16 np x)) (a_data tensor_np)
                             else tensor_list)
          in (Inr tensor_node,
              ini @ [\<lparr>t_name = tensor_name, t_data_type = data_type, t_dims = dims,
                       t_vals = tensor_list\<rparr>]))"

subsection \<open>Reading typed attributes\<close>

text \<open>\<^verbatim>\<open>int(attrs.get(key, d))\<close> for an integer default \<open>d\<close>, and
  \<^verbatim>\<open>float(attrs.get(key, d))\<close> for a default that is already a float: the default is
  used as it is, a string is converted and may fail with \<^verbatim>\<open>ValueError\<close>.
  \<^verbatim>\<open>int(attrs.get(key))\<close> without a default fails with \<^verbatim>\<open>TypeError\<close> on a
  missing key.\<close>

definition int_attr :: "attrs \<Rightarrow> string \<Rightarrow> int \<Rightarrow> error + int" where
  "int_attr attrs key d = (case map_of attrs key of None \<Rightarrow> Inr d | Some s \<Rightarrow> py_int s)"


definition float_attr :: "'f numpy \<Rightarrow> attrs \<Rightarrow> string \<Rightarrow> 'f \<Rightarrow> error + 'f" where
  "float_attr np attrs key d =
     (case map_of attrs key of
        None \<Rightarrow> Inr d
      | Some s \<Rightarrow> (case py_float np s of None \<Rightarrow> Inl ValueError | Some x \<Rightarrow> Inr x))"

text \<open>\<^verbatim>\<open>attrs.get(key, d)\<close> kept as a Python value, for a string or float default.\<close>

definition str_attr :: "attrs \<Rightarrow> string \<Rightarrow> string \<Rightarrow> string" where
  "str_attr attrs key d = (case map_of attrs key of None \<Rightarrow> d | Some s \<Rightarrow> s)"

definition val_attr :: "attrs \<Rightarrow> string \<Rightarrow> 'f val \<Rightarrow> 'f val" where
  "val_attr attrs key d = (case map_of attrs key of None \<Rightarrow> d | Some s \<Rightarrow> VStr s)"

text \<open>\<^verbatim>\<open>float(x)\<close> for a value that is a string or already a float.\<close>

definition float_of_val :: "'f numpy \<Rightarrow> 'f val \<Rightarrow> error + 'f" where
  "float_of_val np v =
     (case v of
        VStr s \<Rightarrow> (case py_float np s of None \<Rightarrow> Inl ValueError | Some x \<Rightarrow> Inr x)
      | VFloat x \<Rightarrow> Inr x
      | VInt i \<Rightarrow> Inr (py_float_lit np (of_int i))
      | VNone \<Rightarrow> Inl TypeError
      | VU16 w \<Rightarrow> Inr (py_float_lit np (of_nat (unat w))))"

text \<open>\<^verbatim>\<open>np.array([x], dtype=s)\<close> with the element type given by name.\<close>

definition np_array_named :: "'f numpy \<Rightarrow> 'f val list \<Rightarrow> string \<Rightarrow> error + 'f ndarray" where
  "np_array_named np xs s =
     (case np_dtype np s of None \<Rightarrow> Inl TypeError | Some dt \<Rightarrow> np_array np xs dt)"

section \<open>Translation rules\<close>

subsection \<open>\<^verbatim>\<open>dot\<close>\<close>

definition create_helper_trans_node :: "string \<Rightarrow> string \<Rightarrow> 'f item" where
  "create_helper_trans_node nm input_node =
     make_node ''Transpose'' [input_node] [nm] (Some nm) []"

text \<open>The rule rebinds \<^verbatim>\<open>input_nodes\<close> to the empty list and then reads
  \<^verbatim>\<open>input_nodes[0]\<close> from it; its last statement calls the method
  \<^verbatim>\<open>appennd\<close>, which a list does not have.\<close>

definition convert_dot :: "src_node \<Rightarrow> 'f kwargs \<Rightarrow> 'f result" where
  "convert_dot node kw =
     (ebind (get_inputs node kw) (\<lambda>(name, input_nodes0, attrs).
        let trans_a = get_boolean_attribute_value attrs ''transpose_a'';
            trans_b = get_boolean_attribute_value attrs ''transpose_b'';
            nodes = ([] :: 'f item list);
            input_nodes = ([] :: string list)
        in ebind
             (if trans_a \<noteq> 0 then
                ebind (py_getitem input_nodes 0) (\<lambda>a.
                  Inr (nodes @ [create_helper_trans_node (name @ ''_a'') a],
                       input_nodes @ [name @ ''_a'']))
              else
                ebind (py_getitem input_nodes 0) (\<lambda>a. Inr (nodes, input_nodes @ [a])))
             (\<lambda>(nodes, input_nodes).
                ebind
                  (if trans_b \<noteq> 0 then
                     ebind (py_getitem input_nodes 1) (\<lambda>b.
                       Inr (nodes @ [create_helper_trans_node (name @ ''_b'') b],
                            input_nodes @ [name @ ''_b'']))
                   else
                     ebind (py_getitem input_nodes 1) (\<lambda>b. Inr (nodes, input_nodes @ [b])))
                  (\<lambda>(nodes, input_nodes).
                     Inl (AttributeError ''list object has no attribute appennd'')))),
      kw_initializer kw)"

text \<open>Whether a result is a returned list that holds a \<^verbatim>\<open>Transpose\<close> node.\<close>

fun is_op :: "string \<Rightarrow> 'f item \<Rightarrow> bool" where
  "is_op op (Node n) = (op_type n = op)"
| "is_op op (ValueInfo nm t sh) = False"

definition returns_op :: "string \<Rightarrow> 'f result \<Rightarrow> bool" where
  "returns_op op r = (case fst r of Inl e \<Rightarrow> False | Inr nodes \<Rightarrow> list_ex (is_op op) nodes)"

subsection \<open>\<^verbatim>\<open>L2Normalization\<close>\<close>

definition convert_l2normalization :: "src_node \<Rightarrow> 'f kwargs \<Rightarrow> 'f result" where
  "convert_l2normalization node kw =
     sbind (slift (get_inputs node kw)) (\<lambda>(name, input_nodes, attrs).
       let mode = (case map_of attrs ''mode'' of None \<Rightarrow> ''instance'' | Some m \<Rightarrow> m)
       in if mode \<noteq> ''channel'' then
            sraise (AttributeError ''L2Normalization: ONNX currently supports channel mode only'')
          else
            sreturn [make_node ''LpNormalization'' input_nodes [name] (Some name)
                       [(''axis'', AVal (VInt 1))]])
       (kw_initializer kw)"

subsection \<open>\<^verbatim>\<open>slice\<close>\<close>

text \<open>The loop \<^verbatim>\<open>for i, s in enumerate(steps)\<close>, which rejects a negative step and
  replaces a missing start by 0 and a missing end by the largest 64-bit integer.\<close>

fun slice_loop ::
  "(nat \<times> int) list \<Rightarrow> int option list \<Rightarrow> int option list \<Rightarrow>
   error + (int option list \<times> int option list)" where
  "slice_loop [] starts ends = Inr (starts, ends)"
| "slice_loop ((i, s) # rest) starts ends =
     (if s < 0 then
        Inl (NotImplementedError ''slice operator does not support negative steps yet'')
      else
        (case py_getitem starts i of
           Inl e \<Rightarrow> Inl e
         | Inr b \<Rightarrow>
            (let starts = (if b = None then starts[i := Some 0] else starts)
             in (case py_getitem ends i of
                   Inl e \<Rightarrow> Inl e
                 | Inr en \<Rightarrow>
                    (let ends = (if en = None then ends[i := Some (2 ^ 63 - 1)] else ends)
                     in slice_loop rest starts ends)))))"

definition val_of :: "int option \<Rightarrow> 'f val" where
  "val_of x = (case x of None \<Rightarrow> VNone | Some i \<Rightarrow> VInt i)"

definition int64 :: "int \<Rightarrow> 'f ndarray" where
  "int64 i = \<lparr>a_dtype = INT64, a_shape = [], a_data = [VInt i]\<rparr>"

definition convert_slice :: "'f numpy \<Rightarrow> src_node \<Rightarrow> 'f kwargs \<Rightarrow> 'f result" where
  "convert_slice np node kw =
     sbind (slift (get_inputs node kw)) (\<lambda>(name, input_nodes, attrs).
     sbind (slift (convert_string_to_list (map_of attrs ''begin''))) (\<lambda>starts.
     sbind (slift (convert_string_to_list (map_of attrs ''end''))) (\<lambda>ends.
     sbind (slift (convert_string_to_list
                     (case map_of attrs ''step'' of None \<Rightarrow> Some ''[]'' | Some s \<Rightarrow> Some s))) (\<lambda>steps.
     if length starts \<noteq> length ends then sraise AssertionError
     else
       sbind (if length steps = 0 \<or> (length steps = 1 \<and> steps ! 0 = None)
              then sreturn (map (\<lambda>x. Some 1) starts)
              else if length steps \<noteq> length starts then sraise AssertionError
              else sreturn steps) (\<lambda>steps.
       let steps = map (\<lambda>x. case x of None \<Rightarrow> 1 | Some s \<Rightarrow> s) steps
       in sbind (slift (slice_loop (enumerate 0 steps) starts ends)) (\<lambda>(starts, ends).
          slist [
            create_const_scalar_node (name @ ''_0_s'') (int64 0),
            create_const_scalar_node (name @ ''_1_s'') (int64 1),
            sbind (slift (np_scalar np INT64 (VInt (int (length starts)))))
              (create_const_scalar_node (name @ ''_len_s'')),
            sreturn (make_node ''Range'' [name @ ''_0_s'', name @ ''_len_s'', name @ ''_1_s'']
                       [name @ ''_axes''] None []),
            create_tensor np (map val_of starts) (name @ ''_starts'') INT64,
            create_tensor np (map val_of ends) (name @ ''_ends'') INT64,
            create_tensor np (map VInt steps) (name @ ''_steps'') INT64,
            sbind (slift (py_getitem input_nodes 0)) (\<lambda>input0.
              sreturn (make_node ''Slice''
                         [input0, name @ ''_starts'', name @ ''_ends'', name @ ''_axes'',
                          name @ ''_steps'']
                         [name] (Some name) []))
          ]))))))
       (kw_initializer kw)"

subsection \<open>Rules that need version 11: \<^verbatim>\<open>_arange\<close>, \<^verbatim>\<open>_contrib_arange_like\<close>,
  \<^verbatim>\<open>_contrib_BilinearResize2D\<close>, \<^verbatim>\<open>repeat\<close>\<close>

definition opset11_required :: error where
  "opset11_required =
     AttributeError ''ONNX opset 11 or greater is required to export this operator''"

definition convert_arange :: "'f numpy \<Rightarrow> src_node \<Rightarrow> 'f kwargs \<Rightarrow> 'f result" where
  "convert_arange np node kw =
     sbind (slift (get_inputs node kw)) (\<lambda>(name, input_nodes, attrs).
     let opset_version = kw_opset_version kw
     in if opset_version < 11 then sraise opset11_required
     else
       let start = val_attr attrs ''start'' (VFloat (py_float_lit np 0));
           stop = (case map_of attrs ''stop'' of None \<Rightarrow> VNone | Some s \<Rightarrow> VStr s);
           step = val_attr attrs ''step'' (VFloat (py_float_lit np 1));
           dtype = str_attr attrs ''dtype'' ''float32''
       in sbind (slift (int_attr attrs ''repeat'' 1)) (\<lambda>repeat.
          if repeat \<noteq> 1 then
            sraise (NotImplementedError ''arange operator with repeat != 1 not yet implemented.'')
          else
            slist [
              sbind (slift (np_array_named np [start] dtype))
                (create_const_scalar_node (name @ ''_start'')),
              sbind (slift (np_array_named np [stop] dtype))
                (create_const_scalar_node (name @ ''_stop'')),
              sbind (slift (np_array_named np [step] dtype))
                (create_const_scalar_node (name @ ''_step'')),
              sreturn (make_node ''Range'' [name @ ''_start'', name @ ''_stop'', name @ ''_step'']
                         [name] (Some name) [])
            ]))
       (kw_initializer kw)"

definition convert_arange_like :: "'f numpy \<Rightarrow> src_node \<Rightarrow> 'f kwargs \<Rightarrow> 'f result" where
  "convert_arange_like np node kw =
     sbind (slift (get_inputs node kw)) (\<lambda>(name, input_nodes, attrs).
     let opset_version = kw_opset_version kw
     in if opset_version < 11 then sraise opset11_required
     else
       let input_type = kw_in_type kw;
           dtype = input_type;
           axis = str_attr attrs ''axis'' ''None'';
           start = val_attr attrs ''start'' (VFloat (py_float_lit np 0));
           step = val_attr attrs ''step'' (VFloat (py_float_lit np 1))
       in sbind (slift (int_attr attrs ''repeat'' 1)) (\<lambda>repeat.
          if repeat \<noteq> 1 then
            sraise (NotImplementedError
                      ''arange_like operator with repeat != 1 not yet implemented.'')
          else
            sbind (slist [
              sbind (slift (np_array np [start] dtype))
                (create_const_scalar_node (name @ ''_start'')),
              sbind (slift (np_array np [step] dtype))
                (create_const_scalar_node (name @ ''_step'')),
              sbind (slift (float_of_val np step)) (\<lambda>fstep.
                sbind (slift (np_array np
                                [VFloat (py_float_mul np fstep (py_float_lit np (1 / 2)))] dtype))
                  (create_const_scalar_node (name @ ''_half_step''))),
              create_tensor np [] (name @ ''_void'') INT64
            ]) (\<lambda>nodes.
            if axis = ''None'' then
              sbind (slist [
                sbind (slift (py_getitem input_nodes 0)) (\<lambda>input0.
                  sreturn (make_node ''Shape'' [input0] [name @ ''_shape0_out''] None [])),
                sreturn (make_node ''ReduceProd'' [name @ ''_shape0_out'']
                           [name @ ''_redprod0_out''] None []),
                sreturn (make_node ''Reshape'' [name @ ''_redprod0_out'', name @ ''_void'']
                           [name @ ''_reshape0_out''] None []),
                sreturn (make_node ''Cast'' [name @ ''_reshape0_out''] [name @ ''_cast0_out''] None
                           [(''to'', AType input_type)]),
                sreturn (make_node ''Mul'' [name @ ''_cast0_out'', name @ ''_step'']
                           [name @ ''_mul0_out''] None []),
                sreturn (make_node ''Add'' [name @ ''_mul0_out'', name @ ''_start'']
                           [name @ ''_add1_out''] None []),
                sreturn (make_node ''Sub'' [name @ ''_add1_out'', name @ ''_half_step'']
                           [name @ ''_sub0_out''] None []),
                sreturn (make_node ''Range'' [name @ ''_start'', name @ ''_sub0_out'', name @ ''_step'']
                           [name @ ''_range0_out''] None []),
                sreturn (make_node ''Reshape'' [name @ ''_range0_out'', name @ ''_shape0_out'']
                           [name] (Some name) [])
              ]) (\<lambda>more. sreturn (nodes @ more))
            else
              sbind (slist [
                sbind (slift (py_int axis)) (\<lambda>a.
                  create_tensor np [VInt a] (name @ ''_axis_start'') INT64),
                sbind (slift (py_int axis)) (\<lambda>a.
                  create_tensor np [VInt (a + 1)] (name @ ''_axis_end'') INT64),
                sbind (slift (py_getitem input_nodes 0)) (\<lambda>input0.
                  sreturn (make_node ''Shape'' [input0] [name @ ''_shape0_out''] None [])),
                sreturn (make_node ''Slice''
                           [name @ ''_shape0_out'', name @ ''_axis_start'', name @ ''_axis_end'']
                           [name @ ''_slice0_out''] None []),
                sreturn (make_node ''ReduceProd'' [name @ ''_slice0_out'']
                           [name @ ''_reprod0_out''] None []),
                sreturn (make_node ''Reshape'' [name @ ''_reprod0_out'', name @ ''_void'']
                           [name @ ''_reshape0_out''] None []),
                sreturn (make_node ''Cast'' [name @ ''_reshape0_out''] [name @ ''_cast0_out''] None
                           [(''to'', AType input_type)]),
                sreturn (make_node ''Mul'' [name @ ''_cast0_out'', name @ ''_step'']
                           [name @ ''_mul0_out''] None []),
                sreturn (make_node ''Add'' [name @ ''_mul0_out'', name @ ''_start'']
                           [name @ ''_add1_out''] None []),
                sreturn (make_node ''Sub'' [name @ ''_add1_out'', name @ ''_half_step'']
                           [name @ ''_sub0_out''] None []),
                sreturn (make_node ''Range'' [name @ ''_start'', name @ ''_sub0_out'', name @ ''_step'']
                           [name] (Some name) [])
              ]) (\<lambda>more. sreturn (nodes @ more)))))
       (kw_initializer kw)"

definition convert_contrib_BilinearResize2D :: "'f numpy \<Rightarrow> src_node \<Rightarrow> 'f kwargs \<Rightarrow> 'f result" where
  "convert_contrib_BilinearResize2D np node kw =
     sbind (slift (get_inputs node kw)) (\<lambda>(name, input_nodes, attrs).
     let opset_version = kw_opset_version kw
     in if opset_version < 11 then sraise opset11_required
     else
       sbind (slift (int_attr attrs ''height'' 0)) (\<lambda>height.
       sbind (slift (int_attr attrs ''width'' 0)) (\<lambda>width.
       sbind (slift (float_attr np attrs ''scale_height'' (py_float_lit np 0))) (\<lambda>scale_height.
       sbind (slift (float_attr np attrs ''scale_width'' (py_float_lit np 0))) (\<lambda>scale_width.
       if height * width = 0 \<and> py_float_is_zero np (py_float_mul np scale_height scale_width)
       then sraise (AttributeError ''height, width or scale_height, scale_width cannot be 0'')
       else
         let mode = str_attr attrs ''mode'' ''size''
         in if mode \<noteq> ''size'' then
              sraise (NotImplementedError
                (''contrib_BilinearResize2D with mode other than '' @ [CHR 0x22] @ ''size'' @
                 [CHR 0x22] @ '' is '' @ replicate 35 (CHR '' '') @ ''not supported''))
            else
              sbind (slist [create_tensor np [] (name @ ''_roi'') FLOAT]) (\<lambda>nodes.
              if py_float_is_zero np scale_height then
                sbind (slist [
                  create_tensor np [VInt 0] (name @ ''_0'') INT64,
                  create_tensor np [VInt 2] (name @ ''_2'') INT64,
                  create_tensor np [VInt height, VInt width] (name @ ''_h_w'') INT64,
                  sbind (slift (py_getitem input_nodes 0)) (\<lambda>input0.
                    sreturn (make_node ''Shape'' [input0] [name @ ''_shape''] None [])),
                  sreturn (make_node ''Slice'' [name @ ''_shape'', name @ ''_0'', name @ ''_2'']
                             [name @ ''_shape_01''] None []),
                  sreturn (make_node ''Concat'' [name @ ''_shape_01'', name @ ''_h_w'']
                             [name @ ''_new_shape''] None [(''axis'', AVal (VInt 0))]),
                  sreturn (make_node ''Cast'' [name @ ''_shape''] [name @ ''_shape_f''] None
                             [(''to'', AType FLOAT)]),
                  sreturn (make_node ''Cast'' [name @ ''_new_shape''] [name @ ''_new_shape_f''] None
                             [(''to'', AType FLOAT)]),
                  sreturn (make_node ''Div'' [name @ ''_new_shape_f'', name @ ''_shape_f'']
                             [name @ ''_scales''] None []),
                  sbind (slift (py_getitem input_nodes 0)) (\<lambda>input0.
                    sreturn (make_node ''Resize'' [input0, name @ ''_roi'', name @ ''_scales'']
                               [name] (Some name)
                               [(''mode'', AVal (VStr ''linear'')),
                                (''coordinate_transformation_mode'', AVal (VStr ''align_corners''))]))
                ]) (\<lambda>more. sreturn (nodes @ more))
              else
                sbind (slist [
                  create_tensor np [VInt 1, VInt 1, VFloat scale_height, VFloat scale_width]
                    (name @ ''_scales'') FLOAT,
                  sbind (slift (py_getitem input_nodes 0)) (\<lambda>input0.
                    sreturn (make_node ''Resize'' [input0, name @ ''_roi'', name @ ''_scales'']
                               [name] (Some name)
                               [(''mode'', AVal (VStr ''linear'')),
                                (''coordinate_transformation_mode'', AVal (VStr ''align_corners''))]))
                ]) (\<lambda>more. sreturn (nodes @ more))))))))
       (kw_initializer kw)"

definition convert_repeat :: "'f numpy \<Rightarrow> src_node \<Rightarrow> 'f kwargs \<Rightarrow> 'f result" where
  "convert_repeat np node kw =
     sbind (slift (get_inputs node kw)) (\<lambda>(name, input_nodes, attrs).
     let opset_version = kw_opset_version kw
     in if opset_version < 11 then sraise opset11_required
     else
       sbind (slift (int_attr attrs ''repeats'' 1)) (\<lambda>repeats.
       let axis = str_attr attrs ''axis'' ''None''
       in if repeats \<le> 0 then
            sraise (NotImplementedError ''repeat operator does not support parameter repeats==0'')
          else if axis = ''None'' then
            slist [
              create_tensor np [VInt repeats] (name @ ''_rep'') INT64,
              create_tensor np [VInt 1, VInt repeats] (name @ ''_repeats'') INT64,
              sbind (slift (py_getitem input_nodes 0)) (\<lambda>input0.
                sreturn (make_node ''Shape'' [input0] [name @ ''_shape''] None [])),
              sreturn (make_node ''ReduceProd'' [name @ ''_shape''] [name @ ''_size''] None []),
              sbind (slift (py_getitem input_nodes 0)) (\<lambda>input0.
                sreturn (make_node ''Reshape'' [input0, name @ ''_size''] [name @ ''_flat''] None [])),
              sreturn (make_node ''Unsqueeze'' [name @ ''_flat''] [name @ ''_unsqueeze''] None
                         [(''axes'', AList [VInt (- 1)])]),
              sreturn (make_node ''Tile'' [name @ ''_unsqueeze'', name @ ''_repeats'']
                         [name @ ''_tile''] None []),
              sreturn (make_node ''Mul'' [name @ ''_size'', name @ ''_rep'']
                         [name @ ''_new_size''] None []),
              sreturn (make_node ''Reshape'' [name @ ''_tile'', name @ ''_new_size'']
                         [name] (Some name) [])
            ]
          else
            sbind (slift (py_int axis)) (\<lambda>axis.
            let repeats = repeats - 1
            in sbind (slist [
                 create_tensor np [VInt repeats] (name @ ''_repeats'') INT64,
                 create_tensor np [VInt 1] (name @ ''_1'') INT64,
                 create_tensor np [VInt 0] (name @ ''_0'') INT64,
                 create_tensor np [] (name @ ''_void'') INT64,
                 create_tensor np [VInt axis] (name @ ''_axis'') INT64,
                 sbind (slift (py_getitem input_nodes 0)) (\<lambda>input0.
                   sreturn (make_node ''Shape'' [input0] [name @ ''_shape''] None [])),
                 sreturn (make_node ''Shape'' [name @ ''_shape''] [name @ ''_dim''] None []),
                 sreturn (make_node ''Reshape'' [name @ ''_dim'', name @ ''_void'']
                            [name @ ''_dim_s''] None []),
                 sreturn (make_node ''Range'' [name @ ''_0'', name @ ''_dim_s'', name @ ''_1'']
                            [name @ ''_range''] None [])
               ]) (\<lambda>nodes1.
               let nodes2 =
                 (if axis < 0 then
                    [make_node ''Add'' [name @ ''_axis'', name @ ''_dim''] [name @ ''_true_axis''] None [],
                     make_node ''Equal'' [name @ ''_range'', name @ ''_true_axis'']
                       [name @ ''_one_hot''] None []]
                  else
                    [make_node ''Equal'' [name @ ''_range'', name @ ''_axis'']
                       [name @ ''_one_hot''] None []]);
                   nodes3 =
                    [make_node ''Cast'' [name @ ''_one_hot''] [name @ ''_one_hot_int''] None
                       [(''to'', AType INT64)],
                     make_node ''Mul'' [name @ ''_repeats'', name @ ''_one_hot_int'']
                       [name @ ''_mul''] None [],
                     make_node ''Add'' [name @ ''_mul'', name @ ''_1''] [name @ ''_add''] None [],
                     make_node ''Concat'' [name @ ''_1'', name @ ''_add'']
                       [name @ ''_repeats_tensor''] None [(''axis'', AVal (VInt 0))]]
               in sbind (slift (py_getitem input_nodes 0)) (\<lambda>input0.
                  let nodes4 =
                    (if axis = - 1 then
                       [make_node ''Concat'' [name @ ''_shape'', name @ ''_1'']
                          [name @ ''_unsqueeze_shape''] None [(''axis'', AVal (VInt 0))],
                        make_node ''Reshape'' [input0, name @ ''_unsqueeze_shape'']
                          [name @ ''_unsqueeze''] None []]
                     else
                       [make_node ''Unsqueeze'' [input0] [name @ ''_unsqueeze''] None
                          [(''axes'', AList [VInt (axis + 1)])]]);
                      nodes5 =
                       [make_node ''Tile'' [name @ ''_unsqueeze'', name @ ''_repeats_tensor'']
                          [name @ ''_tile''] None [],
                        make_node ''Mul'' [name @ ''_shape'', name @ ''_add'']
                          [name @ ''_new_shape''] None [],
                        make_node ''Reshape'' [name @ ''_tile'', name @ ''_new_shape'']
                          [name] (Some name) []]
                  in sreturn (nodes1 @ nodes2 @ nodes3 @ nodes4 @ nodes5))))))
       (kw_initializer kw)"

subsection \<open>Scalar arithmetic: \<^verbatim>\<open>scalar_op_helper\<close> and its seven rules\<close>

definition startswith :: "string \<Rightarrow> string \<Rightarrow> bool" where
  "startswith s p = (take (length p) s = p)"

text \<open>The search \<^verbatim>\<open>for i in initializer: if i.name == input_nodes[0]: ...; break\<close>:
  the first initializer with the name of the first input. \<^verbatim>\<open>input_nodes[0]\<close> is read
  once per round, so it is only read (and can only fail) when the list is not empty.\<close>

fun find_initializer :: "'f tensor list \<Rightarrow> string list \<Rightarrow> error + 'f tensor option" where
  "find_initializer [] input_nodes = Inr None"
| "find_initializer (i # rest) input_nodes =
     (case py_getitem input_nodes 0 of
        Inl e \<Rightarrow> Inl e
      | Inr input0 \<Rightarrow>
          if t_name i = input0 then Inr (Some i) else find_initializer rest input_nodes)"

text \<open>The folded constant, element by element. \<open>arr\<close> is
  \<^verbatim>\<open>numpy_helper.to_array(i)\<close> and \<open>s\<close> is \<^verbatim>\<open>scalar_value[0]\<close>. For an operator name
  outside the five, \<^verbatim>\<open>new_initializer\<close> stays unbound and its first use raises.\<close>

definition fold_scalar ::
  "'f numpy \<Rightarrow> string \<Rightarrow> string \<Rightarrow> 'f val list \<Rightarrow> 'f val \<Rightarrow> error + 'f val list" where
  "fold_scalar np op_name name arr s =
     (if op_name = ''Mul'' then Inr (map (\<lambda>x. np_mul np x s) arr)
      else if op_name = ''Sub'' then
        (if startswith name ''_rminusscalar'' then Inr (map (\<lambda>x. np_sub np s x) arr)
         else Inr (map (\<lambda>x. np_sub np x s) arr))
      else if op_name = ''Add'' then Inr (map (\<lambda>x. np_add np x s) arr)
      else if op_name = ''Div'' then
        (if startswith name ''_rdivscalar'' then Inr (map (\<lambda>x. np_truediv np s x) arr)
         else Inr (map (\<lambda>x. np_truediv np x s) arr))
      else if op_name = ''Pow'' then Inr (map (\<lambda>x. np_pow np x s) arr)
      else Inl NameError)"

definition scalar_op_helper :: "'f numpy \<Rightarrow> src_node \<Rightarrow> string \<Rightarrow> 'f kwargs \<Rightarrow> 'f result" where
  "scalar_op_helper np node op_name kw =
     sbind (slift (get_inputs node kw)) (\<lambda>(name, input_nodes, attrs).
     let input_type = kw_in_type kw
     in sbind (slift (np_array np [val_attr attrs ''scalar'' (VInt 1)] input_type)) (\<lambda>scalar_value.
        (\<lambda>initializer.
           (case find_initializer initializer input_nodes of
              Inl e \<Rightarrow> (Inl e, initializer)
            | Inr None \<Rightarrow>
                (let dims = a_shape scalar_value;
                     scalar_op_name = ''scalar_op'' @ str_nat (kw_idx kw);
                     tensor_node = ValueInfo scalar_op_name input_type dims;
                     initializer = initializer @
                       [\<lparr>t_name = scalar_op_name, t_data_type = input_type, t_dims = dims,
                         t_vals = a_data scalar_value\<rparr>]
                 in (case py_getitem input_nodes 0 of
                       Inl e \<Rightarrow> (Inl e, initializer)
                     | Inr input0 \<Rightarrow>
                         (Inr [tensor_node,
                               make_node op_name [input0, scalar_op_name] [name] (Some name) []],
                          initializer)))
            | Inr (Some i) \<Rightarrow>
                (case py_getitem (a_data scalar_value) 0 of
                   Inl e \<Rightarrow> (Inl e, initializer)
                 | Inr s \<Rightarrow>
                    (case fold_scalar np op_name name (np_to_array np i) s of
                       Inl e \<Rightarrow> (Inl e, initializer)
                     | Inr new_initializer \<Rightarrow>
                        (case py_getitem input_nodes 0 of
                           Inl e \<Rightarrow> (Inl e, initializer)
                         | Inr input0 \<Rightarrow>
                            (let data_type = np_result_type np (t_data_type i) input_type;
                                 dims = t_dims i;
                                 new_a_node = input0 @ str_nat (kw_idx kw);
                                 tensor_node = ValueInfo new_a_node data_type dims
                             in (Inr [tensor_node],
                                 initializer @
                                   [\<lparr>t_name = new_a_node, t_data_type = data_type,
                                     t_dims = dims, t_vals = new_initializer\<rparr>])))))))))
       (kw_initializer kw)"

definition convert_mul_scalar :: "'f numpy \<Rightarrow> src_node \<Rightarrow> 'f kwargs \<Rightarrow> 'f result" where
  "convert_mul_scalar np node kw = scalar_op_helper np node ''Mul'' kw"

definition convert_minus_scalar :: "'f numpy \<Rightarrow> src_node \<Rightarrow> 'f kwargs \<Rightarrow> 'f result" where
  "convert_minus_scalar np node kw = scalar_op_helper np node ''Sub'' kw"


definition convert_add_scalar :: "'f numpy \<Rightarrow> src_node \<Rightarrow> 'f kwargs \<Rightarrow> 'f result" where
  "convert_add_scalar np node kw = scalar_op_helper np node ''Add'' kw"

definition convert_div_scalar :: "'f numpy \<Rightarrow> src_node \<Rightarrow> 'f kwargs \<Rightarrow> 'f result" where
  "convert_div_scalar np node kw = scalar_op_helper np node ''Div'' kw"

definition convert_rdiv_scalar :: "'f numpy \<Rightarrow> src_node \<Rightarrow> 'f kwargs \<Rightarrow> 'f result" where
  "convert_rdiv_scalar np node kw = scalar_op_helper np node ''Div'' kw"

definition convert_pow_scalar :: "'f numpy \<Rightarrow> src_node \<Rightarrow> 'f kwargs \<Rightarrow> 'f result" where
  "convert_pow_scalar np node kw = scalar_op_helper np node ''Pow'' kw"

subsection \<open>\<^verbatim>\<open>_greater_scalar\<close>\<close>

text \<open>\<^verbatim>\<open>str(dtype).startswith('int')\<close> for a numpy dtype: the signed integer types.\<close>

definition is_int_type :: "dtype \<Rightarrow> bool" where
  "is_int_type dt = (dt = INT8 \<or> dt = INT16 \<or> dt = INT32 \<or> dt = INT64)"

definition convert_greater_scalar :: "'f numpy \<Rightarrow> src_node \<Rightarrow> 'f kwargs \<Rightarrow> 'f result" where
  "convert_greater_scalar np node kw =
     sbind (slift (get_inputs node kw)) (\<lambda>(name, input_nodes, attrs).
     sbind (slift (case map_of attrs ''scalar'' of
                     None \<Rightarrow> Inl TypeError
                   | Some s \<Rightarrow> (case py_float np s of None \<Rightarrow> Inl ValueError | Some x \<Rightarrow> Inr x)))
       (\<lambda>scalar.
     let input_type = kw_in_type kw;
         dtype = input_type
     in sbind (slift
          (if is_int_type dtype then
             (case py_int_of_float np scalar of Inl f \<Rightarrow> Inl (np_raise f) | Inr i \<Rightarrow> Inr (VInt i))
           else if dtype = FLOAT16 then
             (case np_elem np FLOAT16 (VFloat scalar) of
                Inl e \<Rightarrow> Inl e
              | Inr h \<Rightarrow> Inr (VU16 (np_view_uint16 np h)))
           else Inr (VFloat scalar))) (\<lambda>scalar.
        let tensor_value = \<lparr>t_name = name @ ''_scalar'', t_data_type = input_type, t_dims = [1],
                              t_vals = [scalar]\<rparr>
        in slist [
             sbind (slift (py_getitem input_nodes 0)) (\<lambda>input0.
               sreturn (make_node ''Shape'' [input0] [name @ ''_shape''] None [])),
             sreturn (make_node ''ConstantOfShape'' [name @ ''_shape''] [name @ ''_rhs''] None
                        [(''value'', ATensor tensor_value)]),
             sbind (slift (py_getitem input_nodes 0)) (\<lambda>input0.
               sreturn (make_node ''Greater'' [input0, name @ ''_rhs''] [name @ ''_gt''] None [])),
             sreturn (make_node ''Cast'' [name @ ''_gt''] [name] (Some name)
                        [(''to'', AType input_type)])
           ])))
       (kw_initializer kw)"

subsection \<open>Rules that branch on the version: \<^verbatim>\<open>Pad\<close>, \<^verbatim>\<open>clip\<close>, \<^verbatim>\<open>Dropout\<close>,
  \<^verbatim>\<open>topk\<close>\<close>






subsection \<open>\<^verbatim>\<open>softmax\<close>\<close>


subsection \<open>Direct renames\<close>



subsection \<open>\<^verbatim>\<open>SliceChannel\<close>\<close>



section \<open>Auxiliary notions for the proofs\<close>

text \<open>Loop invariant of \<^verbatim>\<open>transform_padding\<close> after the indices below \<open>k\<close> have been
  visited, for an input of length \<open>2 * n\<close>.\<close>

definition tp_inv :: "'f val list \<Rightarrow> nat \<Rightarrow> nat \<Rightarrow> 'f val list \<Rightarrow> nat \<Rightarrow> nat \<Rightarrow> bool" where
  "tp_inv pw n k w s e \<longleftrightarrow>
     length w = 2 * n \<and> s = (k + 1) div 2 \<and> e = n + k div 2 \<and>
     (\<forall>i < (k + 1) div 2. w ! i = pw ! (2 * i)) \<and>
     (\<forall>i < k div 2. w ! (n + i) = pw ! (2 * i + 1))"



text \<open>The step list of a slice node as the rule parses it (an absent attribute reads as
  \<^verbatim>\<open>'[]'\<close>), and what makes the rest of the node well formed: its inputs resolve, and
  its begin and end lists parse and are as long as the step list.\<close>

definition slice_steps :: "src_node \<Rightarrow> error + int option list" where
  "slice_steps node =
     convert_string_to_list
       (case map_of (n_attrs node) ''step'' of None \<Rightarrow> Some ''[]'' | Some s \<Rightarrow> Some s)"

definition slice_well_formed :: "src_node \<Rightarrow> 'f kwargs \<Rightarrow> nat \<Rightarrow> bool" where
  "slice_well_formed node kw n =
     ((\<exists>r. get_inputs node kw = Inr r) \<and>
      (\<exists>starts ends.
         convert_string_to_list (map_of (n_attrs node) ''begin'') = Inr starts \<and>
         convert_string_to_list (map_of (n_attrs node) ''end'') = Inr ends \<and>
         length starts = n \<and> length ends = n))"

text \<open>A rule body that can never raise a given exception, whatever the initializer list
  it runs against.\<close>

definition never_raises :: "error \<Rightarrow> ('f, 'a) st \<Rightarrow> bool" where
  "never_raises e m = (\<forall>ini. fst (m ini) \<noteq> Inl e)"

text \<open>What it means for a rule to be gated on version 11: it raises the version error
  only below version 11; below version 11 it always raises and leaves the initializer
  list as it was; and when the node's inputs resolve, what it raises there is the version
  error.\<close>

definition version_gated ::
  "(src_node \<Rightarrow> 'f kwargs \<Rightarrow> 'f result) \<Rightarrow> src_node \<Rightarrow> 'f kwargs \<Rightarrow> bool" where
  "version_gated rule node kw =
     ((fst (rule node kw) = Inl opset11_required \<longrightarrow> kw_opset_version kw < 11) \<and>
      (kw_opset_version kw < 11 \<longrightarrow>
         (\<exists>e. rule node kw = (Inl e, kw_initializer kw)) \<and>
         ((\<exists>r. get_inputs node kw = Inr r) \<longrightarrow>
            rule node kw = (Inl opset11_required, kw_initializer kw))))"



text \<open>A stored value that is an unsigned 16-bit integer.\<close>

fun is_u16 :: "'f val \<Rightarrow> bool" where
  "is_u16 (VU16 w) = True"
| "is_u16 v = False"

text \<open>The first output name of the final node of a returned list, and the naming contract:
  when a rule returns, that name is the source node's name.\<close>

definition final_output :: "'f item list \<Rightarrow> string option" where
  "final_output nodes =
     (if nodes = [] then None
      else (case last nodes of
              ValueInfo v t sh \<Rightarrow> None
            | Node n \<Rightarrow> (case node_output n of [] \<Rightarrow> None | out # y \<Rightarrow> Some out)))"


text \<open>The exceptions that conversions can raise.\<close>

definition conversion_error :: "error \<Rightarrow> bool" where
  "conversion_error e = (e = ValueError \<or> e = TypeError \<or> e = OverflowError \<or> e = IndexError)"


section \<open>A numeric library for concrete runs\<close>

text \<open>To run a rule on a concrete node the numeric library has to be fixed. \<open>np_exact\<close>
  computes with rationals and without rounding: a decimal string denotes the rational it
  spells, a conversion to an integer type truncates towards zero, and the five operations
  are exact (a power takes a natural exponent). It has no half-precision encoding and no
  infinity of its own: \<open>np_view_uint16\<close> gives the integer part as a 16-bit word, and
  \<open>py_inf\<close> is 0. No statement below depends on either.\<close>

definition is_float_type :: "dtype \<Rightarrow> bool" where
  "is_float_type dt = (dt = FLOAT \<or> dt = FLOAT16 \<or> dt = DOUBLE)"

definition exact_of_str :: "string \<Rightarrow> rat option" where
  "exact_of_str s =
     (let t = py_strip s;
          neg = (case t of [] \<Rightarrow> False | c # x \<Rightarrow> c = CHR ''-'');
          body = (case t of [] \<Rightarrow> [] | c # rest \<Rightarrow> if c = CHR ''-'' \<or> c = CHR ''+'' then rest else t);
          ip = takeWhile (\<lambda>c. c \<noteq> CHR ''.'') body;
          fp = drop 1 (dropWhile (\<lambda>c. c \<noteq> CHR ''.'') body)
      in if ip @ fp \<noteq> [] \<and> list_all is_digit (ip @ fp)
         then Some ((if neg then - 1 else 1) * (of_nat (decimal (ip @ fp)) / 10 ^ length fp))
         else None)"

definition trunc_rat :: "rat \<Rightarrow> int" where
  "trunc_rat x = (if x < 0 then - \<lfloor>- x\<rfloor> else \<lfloor>x\<rfloor>)"

definition exact_value :: "rat val \<Rightarrow> rat" where
  "exact_value v = (case v of VInt i \<Rightarrow> of_int i | VFloat x \<Rightarrow> x | VNone \<Rightarrow> 0
                    | VStr s \<Rightarrow> 0 | VU16 w \<Rightarrow> of_nat (unat w))"

definition exact_convert :: "dtype \<Rightarrow> rat val \<Rightarrow> np_failure + rat val" where
  "exact_convert dt v =
     (case v of
        VInt i \<Rightarrow> Inr (if is_float_type dt then VFloat (of_int i) else VInt i)
      | VFloat x \<Rightarrow> Inr (if is_float_type dt then VFloat x else VInt (trunc_rat x))
      | VNone \<Rightarrow> Inl NpTypeError
      | VStr s \<Rightarrow>
          (case exact_of_str s of
             None \<Rightarrow> Inl NpValueError
           | Some x \<Rightarrow> Inr (if is_float_type dt then VFloat x else VInt (trunc_rat x)))
      | VU16 w \<Rightarrow> Inr (if is_float_type dt then VFloat (of_nat (unat w)) else VInt (uint w)))"

definition exact_dtype :: "string \<Rightarrow> dtype option" where
  "exact_dtype s =
     map_of [(''float32'', FLOAT), (''float16'', FLOAT16), (''float64'', DOUBLE),
             (''int64'', INT64), (''int32'', INT32), (''int16'', INT16), (''int8'', INT8),
             (''uint8'', UINT8), (''uint16'', UINT16), (''uint32'', UINT32),
             (''uint64'', UINT64), (''bool'', BOOL)] s"

definition np_exact :: "rat numpy" where
  "np_exact =
     \<lparr>np_dtype = exact_dtype,
      np_other = exact_convert,
      np_view_uint16 = (\<lambda>v. word_of_int (trunc_rat (exact_value v))),
      np_to_array = t_vals,
      np_result_type = (\<lambda>a b. if is_float_type a then a else b),
      np_mul = (\<lambda>a b. VFloat (exact_value a * exact_value b)),
      np_sub = (\<lambda>a b. VFloat (exact_value a - exact_value b)),
      np_add = (\<lambda>a b. VFloat (exact_value a + exact_value b)),
      np_truediv = (\<lambda>a b. VFloat (exact_value a / exact_value b)),
      np_pow = (\<lambda>a b. VFloat (exact_value a ^ nat (trunc_rat (exact_value b)))),
      py_float = exact_of_str,
      py_float_lit = (\<lambda>q. q),
      py_inf = 0,
      py_float_neg = uminus,
      py_float_mul = (*),
      py_float_is_zero = (\<lambda>x. x = 0),
      py_int_of_float = (\<lambda>x. Inr (trunc_rat x))\<rparr>"

text \<open>A context in which three producers have been translated; the initializer list holds
  one constant, named \<^verbatim>\<open>w\<close>, with the value 5.\<close>

definition kw0 :: "rat kwargs" where
  "kw0 =
     \<lparr>kw_proc_nodes = [''data'', ''w'', ''len''],
      kw_index_lookup = [0, 1, 2],
      kw_initializer = [\<lparr>t_name = ''w'', t_data_type = FLOAT, t_dims = [1], t_vals = [VFloat 5]\<rparr>],
      kw_opset_version = 11,
      kw_in_type = FLOAT,
      kw_in_shape = Some [[2, 4]],
      kw_idx = 3\<rparr>"

definition node0 :: "string \<Rightarrow> string \<Rightarrow> (nat \<times> nat) list \<Rightarrow> attrs \<Rightarrow> src_node" where
  "node0 nm op ins atts = \<lparr>n_name = nm, n_op = op, n_inputs = ins, n_attrs = atts\<rparr>"

section \<open>Verification\<close>

subsection \<open>Running rule bodies\<close>

lemma sbind_sreturn [simp]: "sbind (sreturn x) f ini = f x ini"
  by (simp add: sbind_def sreturn_def)

lemma sbind_sraise [simp]: "sbind (sraise e) f ini = (Inl e, ini)"
  by (simp add: sbind_def sraise_def)

lemma sbind_slift_Inr [simp]: "sbind (slift (Inr x)) f ini = f x ini"
  by (simp add: sbind_def slift_def)

lemma sbind_slift_Inl [simp]: "sbind (slift (Inl e)) f ini = (Inl e, ini)"
  by (simp add: sbind_def slift_def)

lemma sbind_slift_cases:
  "sbind (slift m) f ini = (case m of Inl e \<Rightarrow> (Inl e, ini) | Inr x \<Rightarrow> f x ini)"
  by (cases m) simp_all

lemma sbind_assoc: "sbind (sbind m f) g ini = sbind m (\<lambda>x. sbind (f x) g) ini"
  by (simp add: sbind_def split: prod.splits sum.splits)

lemma sbind_create_const_scalar_node [simp]:
  "sbind (create_const_scalar_node nm v) f ini =
     f (ValueInfo nm (a_dtype v) [])
       (ini @ [\<lparr>t_name = nm, t_data_type = a_dtype v, t_dims = [], t_vals = a_data v\<rparr>])"
  by (simp add: sbind_def create_const_scalar_node_def Let_def)

lemma sbind_create_const_node [simp]:
  "sbind (create_const_node nm v) f ini =
     f (ValueInfo nm (a_dtype v) (a_shape v))
       (ini @ [\<lparr>t_name = nm, t_data_type = a_dtype v, t_dims = a_shape v, t_vals = a_data v\<rparr>])"
  by (simp add: sbind_def create_const_node_def Let_def)

lemma sbind_create_tensor:
  "sbind (create_tensor np xs nm dt) f ini =
     (case np_elems np dt xs of
        Inl e \<Rightarrow> (Inl e, ini)
      | Inr ws \<Rightarrow>
          f (ValueInfo nm dt [length xs])
            (ini @ [\<lparr>t_name = nm, t_data_type = dt, t_dims = [length xs],
                     t_vals = (if dt = FLOAT16 then map (\<lambda>x. VU16 (np_view_uint16 np x)) ws else xs)\<rparr>]))"
  by (simp add: sbind_def create_tensor_def np_array_def ebind_def Let_def split: sum.splits)

lemma get_inputs_attrs:
  "get_inputs node kw = Inr (name, input_nodes, attrs) \<Longrightarrow> name = n_name node \<and> attrs = n_attrs node"
  by (auto simp: get_inputs_def ebind_def split: sum.splits)

subsection \<open>Exceptions a rule body cannot raise\<close>

named_theorems nr_intros

lemma nr_sreturn [nr_intros]: "never_raises e (sreturn x)"
  by (simp add: never_raises_def sreturn_def)

lemma nr_sraise [nr_intros]: "e \<noteq> e' \<Longrightarrow> never_raises e (sraise e')"
  by (auto simp: never_raises_def sraise_def)

lemma nr_slift [nr_intros]: "m \<noteq> Inl e \<Longrightarrow> never_raises e (slift m)"
  by (simp add: never_raises_def slift_def)

lemma nr_sbind [nr_intros]:
  "never_raises e m \<Longrightarrow> (\<And>x. never_raises e (f x)) \<Longrightarrow> never_raises e (sbind m f)"
  unfolding never_raises_def sbind_def
  by (auto split: prod.splits sum.splits) (metis fst_conv)+

lemma nr_slist_Nil [nr_intros]: "never_raises e (slist [])"
  by (simp add: nr_sreturn)

lemma nr_slist_Cons [nr_intros]:
  "never_raises e m \<Longrightarrow> never_raises e (slist ms) \<Longrightarrow> never_raises e (slist (m # ms))"
  by (simp add: nr_sbind nr_sreturn)

lemma nr_if [nr_intros]:
  "(c \<Longrightarrow> never_raises e a) \<Longrightarrow> (\<not> c \<Longrightarrow> never_raises e b) \<Longrightarrow>
   never_raises e (if c then a else b)"
  by simp

lemma nr_Let [nr_intros]: "never_raises e (f x) \<Longrightarrow> never_raises e (Let x f)"
  by simp

lemma nr_case_prod [nr_intros]:
  "(\<And>a b. never_raises e (f a b)) \<Longrightarrow> never_raises e (case_prod f p)"
  by (cases p) simp

lemma never_raisesD: "never_raises e m \<Longrightarrow> fst (m ini) \<noteq> Inl e"
  by (simp add: never_raises_def)

lemma nr_create_const_scalar_node [nr_intros]: "never_raises e (create_const_scalar_node nm v)"
  by (simp add: never_raises_def create_const_scalar_node_def Let_def)

lemma nr_create_const_node [nr_intros]: "never_raises e (create_const_node nm v)"
  by (simp add: never_raises_def create_const_node_def Let_def)

lemma np_elem_error: "np_elem np dt v = Inl e \<Longrightarrow> conversion_error e"
  by (auto simp: np_elem_def np_convert_def np_raise_def conversion_error_def
      split: val.splits if_splits sum.splits np_failure.splits)

lemma np_elems_error: "np_elems np dt vs = Inl e \<Longrightarrow> conversion_error e"
  by (induction vs arbitrary: e) (auto split: sum.splits dest: np_elem_error)

lemma np_array_error: "np_array np xs dt = Inl e \<Longrightarrow> conversion_error e"
  by (auto simp: np_array_def ebind_def split: sum.splits dest: np_elems_error)

lemma np_scalar_error: "np_scalar np dt x = Inl e \<Longrightarrow> conversion_error e"
  by (auto simp: np_scalar_def ebind_def split: sum.splits dest: np_elem_error)

lemma np_array_named_error: "np_array_named np xs s = Inl e \<Longrightarrow> conversion_error e"
  by (auto simp: np_array_named_def conversion_error_def split: option.splits dest: np_array_error)

lemma py_int_error: "py_int s = Inl e \<Longrightarrow> conversion_error e"
  by (auto simp: py_int_def Let_def conversion_error_def split: if_splits)

lemma int_attr_error: "int_attr attrs k d = Inl e \<Longrightarrow> conversion_error e"
  by (auto simp: int_attr_def split: option.splits dest: py_int_error)

lemma float_attr_error: "float_attr np attrs k d = Inl e \<Longrightarrow> conversion_error e"
  by (auto simp: float_attr_def conversion_error_def split: option.splits)

lemma float_of_val_error: "float_of_val np v = Inl e \<Longrightarrow> conversion_error e"
  by (auto simp: float_of_val_def conversion_error_def split: option.splits val.splits)

lemma py_getitem_error: "py_getitem xs i = Inl e \<Longrightarrow> conversion_error e"
  by (auto simp: py_getitem_def conversion_error_def split: if_splits)

lemma get_inputs_loop_error: "get_inputs_loop kw ins acc = Inl e \<Longrightarrow> conversion_error e"
  by (induction ins arbitrary: acc) (auto split: sum.splits dest: py_getitem_error)

lemma get_inputs_error: "get_inputs node kw = Inl e \<Longrightarrow> conversion_error e"
  by (auto simp: get_inputs_def ebind_def split: sum.splits dest: get_inputs_loop_error)

lemma conversion_error_simps [simp]:
  "conversion_error (AttributeError m) = False"
  "conversion_error (NotImplementedError m) = False"
  "conversion_error AssertionError = False"
  "conversion_error SyntaxError = False"
  "conversion_error NameError = False"
  by (simp_all add: conversion_error_def)

lemma not_conversion_error [simp]:
  "\<not> conversion_error e \<Longrightarrow> np_array np xs dt \<noteq> Inl e"
  "\<not> conversion_error e \<Longrightarrow> np_scalar np dt x \<noteq> Inl e"
  "\<not> conversion_error e \<Longrightarrow> np_array_named np xs s \<noteq> Inl e"
  "\<not> conversion_error e \<Longrightarrow> py_int s \<noteq> Inl e"
  "\<not> conversion_error e \<Longrightarrow> int_attr attrs k d \<noteq> Inl e"
  "\<not> conversion_error e \<Longrightarrow> float_attr np attrs k fd \<noteq> Inl e"
  "\<not> conversion_error e \<Longrightarrow> float_of_val np v \<noteq> Inl e"
  "\<not> conversion_error e \<Longrightarrow> py_getitem ys i \<noteq> Inl e"
  "\<not> conversion_error e \<Longrightarrow> get_inputs node kw \<noteq> Inl e"
proof -
  show "\<not> conversion_error e \<Longrightarrow> np_array np xs dt \<noteq> Inl e"
    using np_array_error[of np xs dt e] by blast
  show "\<not> conversion_error e \<Longrightarrow> np_scalar np dt x \<noteq> Inl e"
    using np_scalar_error[of np dt x e] by blast
  show "\<not> conversion_error e \<Longrightarrow> np_array_named np xs s \<noteq> Inl e"
    using np_array_named_error[of np xs s e] by blast
  show "\<not> conversion_error e \<Longrightarrow> py_int s \<noteq> Inl e"
    using py_int_error[of s e] by blast
  show "\<not> conversion_error e \<Longrightarrow> int_attr attrs k d \<noteq> Inl e"
    using int_attr_error[of attrs k d e] by blast
  show "\<not> conversion_error e \<Longrightarrow> float_attr np attrs k fd \<noteq> Inl e"
    using float_attr_error[of np attrs k fd e] by blast
  show "\<not> conversion_error e \<Longrightarrow> float_of_val np v \<noteq> Inl e"
    using float_of_val_error[of np v e] by blast
  show "\<not> conversion_error e \<Longrightarrow> py_getitem ys i \<noteq> Inl e"
    using py_getitem_error[of ys i e] by blast
  show "\<not> conversion_error e \<Longrightarrow> get_inputs node kw \<noteq> Inl e"
    using get_inputs_error[of node kw e] by blast
qed

lemma nr_create_tensor [nr_intros]:
  "\<not> conversion_error e \<Longrightarrow> never_raises e (create_tensor np xs nm dt)"
  by (auto simp: never_raises_def create_tensor_def Let_def split: sum.splits)

subsection \<open>The padding layout\<close>

lemma tp_loop_inv:
  "length pw = 2 * n \<Longrightarrow> k \<le> 2 * n \<Longrightarrow> tp_inv pw n k w s e \<Longrightarrow> m = 2 * n - k \<Longrightarrow>
   \<exists>r. transform_padding_loop pw [k ..< 2 * n] w s e = Inr r \<and> tp_inv pw n (2 * n) r n (2 * n)"
proof (induction m arbitrary: k w s e)
  case 0
  then have "k = 2 * n" by simp
  with 0 show ?case by (auto simp: tp_inv_def)
next
  case (Suc m)
  then have klt: "k < 2 * n" by simp
  have upt: "[k ..< 2 * n] = k # [Suc k ..< 2 * n]" using klt by (simp add: upt_conv_Cons)
  show ?case
  proof (cases "even k")
    case True
    then have s: "s = k div 2" "s < n" "2 * s = k" using Suc.prems klt by (auto simp: tp_inv_def)
    have inv': "tp_inv pw n (Suc k) (w[s := pw ! k]) (s + 1) e"
      using Suc.prems True s klt
      apply (auto simp: tp_inv_def nth_list_update less_Suc_eq)
      done
    have "transform_padding_loop pw [k ..< 2 * n] w s e =
          transform_padding_loop pw [Suc k ..< 2 * n] (w[s := pw ! k]) (s + 1) e"
      using True klt s Suc.prems by (simp add: upt py_getitem_def py_setitem_def tp_inv_def)
    moreover have "\<exists>r. transform_padding_loop pw [Suc k ..< 2 * n] (w[s := pw ! k]) (s + 1) e = Inr r \<and> tp_inv pw n (2 * n) r n (2 * n)"
      using Suc.IH[OF Suc.prems(1) _ inv'] klt Suc.prems by simp
    ultimately show ?thesis by simp
  next
    case False
    then have e: "e = n + k div 2" "e < 2 * n" "2 * (k div 2) + 1 = k" using Suc.prems klt by (auto simp: tp_inv_def elim: oddE)
    have inv': "tp_inv pw n (Suc k) (w[e := pw ! k]) s (e + 1)"
      using Suc.prems False e klt
      apply (auto simp: tp_inv_def nth_list_update less_Suc_eq elim: oddE)
      done
    have "transform_padding_loop pw [k ..< 2 * n] w s e =
          transform_padding_loop pw [Suc k ..< 2 * n] (w[e := pw ! k]) s (e + 1)"
    proof -
      have km: "k mod 2 \<noteq> 0" using False by presburger
      have kl: "k < length pw" using klt Suc.prems by simp
      have el: "e < length w" using e Suc.prems by (simp add: tp_inv_def)
      show ?thesis unfolding upt using km kl el by (simp add: py_getitem_def py_setitem_def)
    qed
    moreover have "\<exists>r. transform_padding_loop pw [Suc k ..< 2 * n] (w[e := pw ! k]) s (e + 1) = Inr r \<and> tp_inv pw n (2 * n) r n (2 * n)"
      using Suc.IH[OF Suc.prems(1) _ inv'] klt Suc.prems by simp
    ultimately show ?thesis by simp
  qed
qed


lemma tp_inv_final:
  assumes "length pw = 2 * n" "tp_inv pw n (2 * n) r n (2 * n)"
  shows "r = map (\<lambda>i. pw ! (2 * i)) [0 ..< n] @ map (\<lambda>i. pw ! (2 * i + 1)) [0 ..< n]"
proof (rule nth_equalityI)
  show "length r = length (map (\<lambda>i. pw ! (2 * i)) [0 ..< n] @ map (\<lambda>i. pw ! (2 * i + 1)) [0 ..< n])"
    using assms by (simp add: tp_inv_def)
next
  fix i assume "i < length r"
  then have i: "i < 2 * n" using assms by (simp add: tp_inv_def)
  show "r ! i = (map (\<lambda>i. pw ! (2 * i)) [0 ..< n] @ map (\<lambda>i. pw ! (2 * i + 1)) [0 ..< n]) ! i"
  proof (cases "i < n")
    case True
    then show ?thesis using assms by (simp add: tp_inv_def nth_append)
  next
    case False
    then obtain j where j: "i = n + j" "j < n" using i by (metis add_diff_inverse_nat nat_add_left_cancel_less mult_2)
    then show ?thesis using assms by (simp add: tp_inv_def nth_append)
  qed
qed

lemma mset_evens_odds:
  "length pw = 2 * n \<Longrightarrow>
   mset (map (\<lambda>i. pw ! (2 * i)) [0 ..< n] @ map (\<lambda>i. pw ! (2 * i + 1)) [0 ..< n]) = mset pw"
proof (induction n arbitrary: pw)
  case 0
  then show ?case by simp
next
  case (Suc n)
  then obtain a b rest where pw: "pw = a # b # rest"
    by (metis Suc_length_conv mult_Suc_right add_Suc_right add_Suc mult_2)
  then have len: "length rest = 2 * n" using Suc.prems by simp
  have "map (\<lambda>i. pw ! (2 * i)) [0 ..< Suc n] = a # map (\<lambda>i. rest ! (2 * i)) [0 ..< n]"
    unfolding pw by (simp add: upt_rec[of 0] map_Suc_upt[symmetric] del: upt_Suc)
  moreover have "map (\<lambda>i. pw ! (2 * i + 1)) [0 ..< Suc n] = b # map (\<lambda>i. rest ! (2 * i + 1)) [0 ..< n]"
    unfolding pw by (simp add: upt_rec[of 0] map_Suc_upt[symmetric] del: upt_Suc)
  ultimately show ?case using Suc.IH[OF len] by (simp add: pw)
qed

text \<open>
  Claim C10. For a pad-width list of even length \<open>2 * n\<close>, \<^verbatim>\<open>transform_padding\<close>
  returns (it does not raise) a list of the same length whose first \<open>n\<close> entries are the
  input's entries at the even indices, in order, and whose last \<open>n\<close> entries are those at
  the odd indices, in order; the result is a permutation of the input.
\<close>

theorem transform_padding_layout:
  assumes "length pad_width = 2 * n"
  shows "\<exists>r. transform_padding pad_width = Inr r \<and> length r = 2 * n \<and>
             take n r = map (\<lambda>i. pad_width ! (2 * i)) [0 ..< n] \<and>
             drop n r = map (\<lambda>i. pad_width ! (2 * i + 1)) [0 ..< n] \<and>
             mset r = mset pad_width"
proof -
  have inv0: "tp_inv pad_width n 0 (replicate (2 * n) (VInt 0)) 0 n"
    by (simp add: tp_inv_def)
  obtain r where r: "transform_padding_loop pad_width [0 ..< 2 * n] (replicate (2 * n) (VInt 0)) 0 n = Inr r"
      "tp_inv pad_width n (2 * n) r n (2 * n)"
    using tp_loop_inv[OF assms _ inv0, of "2 * n"] by auto
  have eq: "r = map (\<lambda>i. pad_width ! (2 * i)) [0 ..< n] @ map (\<lambda>i. pad_width ! (2 * i + 1)) [0 ..< n]"
    using tp_inv_final[OF assms r(2)] .
  have "transform_padding pad_width = Inr r"
    using r(1) assms by (simp add: transform_padding_def)
  moreover have "length r = 2 * n" using r(2) by (simp add: tp_inv_def)
  moreover have "take n r = map (\<lambda>i. pad_width ! (2 * i)) [0 ..< n]" by (subst eq) simp
  moreover have "drop n r = map (\<lambda>i. pad_width ! (2 * i + 1)) [0 ..< n]" by (subst eq) simp
  moreover have "mset r = mset pad_width" using mset_evens_odds[OF assms] eq by simp
  ultimately show ?thesis by blast
qed

theorem transform_padding_layout_witness:
  "length [VInt 1, VInt 2, VInt 3, VInt 4 :: unit val] = 2 * 2 \<and>
   transform_padding [VInt 1, VInt 2, VInt 3, VInt 4 :: unit val] = Inr [VInt 1, VInt 3, VInt 2, VInt 4]"
proof -
  have h: "length [VInt 1, VInt 2, VInt 3, VInt 4 :: unit val] = 2 * 2" by simp
  from transform_padding_layout[OF h] obtain r where
    r: "transform_padding [VInt 1, VInt 2, VInt 3, VInt 4 :: unit val] = Inr r" "length r = 2 * 2"
       "take 2 r = map (\<lambda>i. [VInt 1, VInt 2, VInt 3, VInt 4 :: unit val] ! (2 * i)) [0 ..< 2]"
       "drop 2 r = map (\<lambda>i. [VInt 1, VInt 2, VInt 3, VInt 4 :: unit val] ! (2 * i + 1)) [0 ..< 2]"
    by blast
  have "r = take 2 r @ drop 2 r" by simp
  also have "\<dots> = [VInt 1, VInt 3, VInt 2, VInt 4]"
    unfolding r(3) r(4) by (simp add: upt_rec)
  finally show ?thesis using r(1) h by simp
qed

subsection \<open>The dot rule\<close>

text \<open>
  Claim C6. The dot rule resets its working input list to the empty list before it reads
  the original inputs from it, so every invocation raises: whatever the node and the
  context, the rule returns no list at all, and in particular no list that holds a
  \<^verbatim>\<open>Transpose\<close> node. The initializer list is left as it was.
\<close>

theorem convert_dot_never_returns:
  "(\<exists>e. convert_dot node kw = (Inl e, kw_initializer kw)) \<and>
   \<not> returns_op ''Transpose'' (convert_dot node kw)"
proof -
  have "\<exists>e. fst (convert_dot node kw) = Inl e"
    by (cases "get_inputs node kw")
       (auto simp: convert_dot_def ebind_def py_getitem_def Let_def split: prod.splits)
  moreover have "snd (convert_dot node kw) = kw_initializer kw"
    by (simp add: convert_dot_def)
  ultimately show ?thesis
    by (auto simp: returns_op_def prod_eq_iff)
qed

subsection \<open>The dimension-list parser\<close>








lemma parse_helper_examples:
  "parse_helper [(''kernel'', ''(3, 3)'')] ''kernel'' PNone = Inr (PTuple [3, 3])"
  "parse_helper [(''kernel'', ''(3, 3)x'')] ''kernel'' PNone =
     Inl (AttributeError ''Malformed kernel dimensions: (3, 3)x'')"
  "parse_helper [(''kernel'', ''(3 3)'')] ''kernel'' PNone = Inl SyntaxError"
  "parse_helper [(''kernel'', ''(3)'')] ''kernel'' PNone = Inr (PInt 3)"
  "parse_helper [(''kernel'', ''()'')] ''kernel'' (PList [1, 1]) = Inr (PList [1, 1])"
  by code_simp+

subsection \<open>Rejected configurations: slice steps and normalization mode\<close>

lemma slice_loop_negative:
  "(i, s) \<in> set xs \<Longrightarrow> s < 0 \<Longrightarrow> \<exists>e. slice_loop xs starts ends = Inl e"
proof (induction xs arbitrary: starts ends)
  case Nil
  then show ?case by simp
next
  case (Cons x xs)
  obtain j t where x: "x = (j, t)" by (cases x)
  show ?case
  proof (cases "t < 0")
    case True
    then show ?thesis by (simp add: x)
  next
    case False
    then have "(i, s) \<in> set xs" using Cons.prems x by auto
    from Cons.IH[OF this Cons.prems(2)] show ?thesis
      using False by (auto simp: x Let_def split: sum.splits)
  qed
qed

lemma slice_loop_negative_in_range:
  "(i, s) \<in> set xs \<Longrightarrow> s < 0 \<Longrightarrow> \<forall>(j, t) \<in> set xs. j < length starts \<and> j < length ends \<Longrightarrow>
   slice_loop xs starts ends =
     Inl (NotImplementedError ''slice operator does not support negative steps yet'')"
proof (induction xs arbitrary: starts ends)
  case Nil
  then show ?case by simp
next
  case (Cons x xs)
  obtain j t where x: "x = (j, t)" by (cases x)
  show ?case
  proof (cases "t < 0")
    case True
    then show ?thesis by (simp add: x)
  next
    case False
    then have mem: "(i, s) \<in> set xs" using Cons.prems x by auto
    have rng: "j < length starts" "j < length ends" using Cons.prems(3) x by auto
    have step: "slice_loop (x # xs) starts ends =
        slice_loop xs (if starts ! j = None then starts[j := Some 0] else starts)
                      (if ends ! j = None then ends[j := Some (2 ^ 63 - 1)] else ends)"
      using False rng by (simp add: x py_getitem_def Let_def)
    show ?thesis unfolding step
      by (rule Cons.IH[OF mem Cons.prems(2)]) (use Cons.prems(3) in auto)
  qed
qed

lemma in_set_enumerate_neg:
  "Some k \<in> set steps \<Longrightarrow> k < 0 \<Longrightarrow>
   \<exists>i. (i, k) \<in> set (enumerate 0 (map (\<lambda>x. case x of None \<Rightarrow> 1 | Some s \<Rightarrow> s) steps))"
proof -
  assume a: "Some k \<in> set steps" "k < 0"
  then obtain i where i: "i < length steps" "steps ! i = Some k" by (auto simp: in_set_conv_nth)
  then have "(i, k) \<in> set (enumerate 0 (map (\<lambda>x. case x of None \<Rightarrow> 1 | Some s \<Rightarrow> s) steps))"
    by (auto simp: in_set_enumerate_eq)
  then show ?thesis by blast
qed

lemma pick_steps:
  "Some k \<in> set steps \<Longrightarrow>
   (if steps = [] \<or> length steps = Suc 0 \<and> steps ! 0 = None then A else B) = B"
  by (cases steps) auto

lemma convert_slice_negative:
  assumes st: "slice_steps node = Inr steps" and mem: "Some k \<in> set steps" and neg: "k < 0"
  shows "\<exists>e. convert_slice np node kw = (Inl e, kw_initializer kw)"
proof -
  have ne: "length steps \<noteq> 0" using mem by auto
  have nn: "\<not> (length steps = 1 \<and> steps ! 0 = None)"
  proof
    assume "length steps = 1 \<and> steps ! 0 = None"
    then have "steps = [None]" by (cases steps) auto
    with mem show False by simp
  qed
  obtain i where i: "(i, k) \<in> set (enumerate 0 (map (\<lambda>x. case x of None \<Rightarrow> 1 | Some s \<Rightarrow> s) steps))"
    using in_set_enumerate_neg[OF mem neg] by blast
  show ?thesis
  proof (cases "get_inputs node kw")
    case (Inl e)
    then show ?thesis by (simp add: convert_slice_def sbind_def slift_def)
  next
    case (Inr r)
    obtain name input_nodes attrs where r: "r = (name, input_nodes, attrs)" by (cases r)
    have attrs: "attrs = n_attrs node" using Inr r get_inputs_attrs by blast
    have st': "convert_string_to_list (case map_of attrs ''step'' of None \<Rightarrow> Some ''[]'' | Some s \<Rightarrow> Some s) = Inr steps"
      using st attrs by (simp add: slice_steps_def)
    show ?thesis
    proof (cases "convert_string_to_list (map_of attrs ''begin'')")
      case (Inl e)
      then show ?thesis using Inr r by (simp add: convert_slice_def sbind_def slift_def)
    next
      case b: (Inr starts)
      show ?thesis
      proof (cases "convert_string_to_list (map_of attrs ''end'')")
        case (Inl e)
        then show ?thesis using Inr r b by (simp add: convert_slice_def sbind_def slift_def)
      next
        case en: (Inr ends)
        obtain e where e: "slice_loop (enumerate 0 (map (\<lambda>x. case x of None \<Rightarrow> 1 | Some s \<Rightarrow> s) steps)) starts ends = Inl e"
          using slice_loop_negative[OF i neg] by blast
        show ?thesis using Inr r b en st' e
          by (simp add: convert_slice_def sbind_def slift_def sraise_def sreturn_def Let_def
                pick_steps[OF mem])
      qed
    qed
  qed
qed

lemma convert_slice_negative_wf:
  assumes st: "slice_steps node = Inr steps" and mem: "Some k \<in> set steps" and neg: "k < 0"
    and wf: "slice_well_formed node kw (length steps)"
  shows "convert_slice np node kw =
           (Inl (NotImplementedError ''slice operator does not support negative steps yet''),
            kw_initializer kw)"
proof -
  have ne: "length steps \<noteq> 0" using mem by auto
  have nn: "\<not> (length steps = 1 \<and> steps ! 0 = None)"
  proof
    assume "length steps = 1 \<and> steps ! 0 = None"
    then have "steps = [None]" by (cases steps) auto
    with mem show False by simp
  qed
  let ?steps = "map (\<lambda>x. case x of None \<Rightarrow> 1 | Some s \<Rightarrow> s) steps"
  obtain i where i: "(i, k) \<in> set (enumerate 0 ?steps)"
    using in_set_enumerate_neg[OF mem neg] by blast
  from wf obtain r starts ends where g: "get_inputs node kw = Inr r"
    and b: "convert_string_to_list (map_of (n_attrs node) ''begin'') = Inr starts"
    and en: "convert_string_to_list (map_of (n_attrs node) ''end'') = Inr ends"
    and len: "length starts = length steps" "length ends = length steps"
    unfolding slice_well_formed_def by blast
  obtain name input_nodes attrs where r: "r = (name, input_nodes, attrs)" by (cases r)
  have attrs: "attrs = n_attrs node" using g r get_inputs_attrs by blast
  have st': "convert_string_to_list (case map_of attrs ''step'' of None \<Rightarrow> Some ''[]'' | Some s \<Rightarrow> Some s) = Inr steps"
    using st attrs by (simp add: slice_steps_def)
  have rng: "\<forall>(j, t) \<in> set (enumerate 0 ?steps). j < length starts \<and> j < length ends"
    using len by (auto simp: in_set_enumerate_eq)
  have e: "slice_loop (enumerate 0 ?steps) starts ends =
      Inl (NotImplementedError ''slice operator does not support negative steps yet'')"
    by (rule slice_loop_negative_in_range[OF i neg rng])
  show ?thesis using g r b en st' e len attrs
    by (simp add: convert_slice_def sbind_def slift_def sraise_def sreturn_def Let_def
          pick_steps[OF mem])
qed

lemma convert_l2normalization_rejects:
  assumes "map_of (n_attrs node) ''mode'' \<noteq> Some ''channel''"
  shows "\<exists>e. convert_l2normalization node kw = (Inl e, kw_initializer kw)"
    and "get_inputs node kw = Inr r \<Longrightarrow> convert_l2normalization node kw =
           (Inl (AttributeError ''L2Normalization: ONNX currently supports channel mode only''),
            kw_initializer kw)"
proof -
  show "\<exists>e. convert_l2normalization node kw = (Inl e, kw_initializer kw)"
  proof (cases "get_inputs node kw")
    case (Inl e)
    then show ?thesis by (simp add: convert_l2normalization_def sbind_def slift_def)
  next
    case (Inr r)
    obtain name input_nodes attrs where r: "r = (name, input_nodes, attrs)" by (cases r)
    have attrs: "attrs = n_attrs node" using Inr r get_inputs_attrs by blast
    show ?thesis using Inr r attrs assms
      by (auto simp: convert_l2normalization_def sbind_def slift_def sraise_def Let_def split: option.splits)
  qed
next
  assume g: "get_inputs node kw = Inr r"
  obtain name input_nodes attrs where r: "r = (name, input_nodes, attrs)" by (cases r)
  have attrs: "attrs = n_attrs node" using g r get_inputs_attrs by blast
  show "convert_l2normalization node kw =
           (Inl (AttributeError ''L2Normalization: ONNX currently supports channel mode only''),
            kw_initializer kw)"
    using g r attrs assms
    by (auto simp: convert_l2normalization_def sbind_def slift_def sraise_def Let_def split: option.splits)
qed

lemma convert_slice_steps_default:
  assumes ok: "convert_slice np node kw = (Inr nodes, ini')" and st: "slice_steps node = Inr steps"
  shows "\<exists>starts. convert_string_to_list (map_of (n_attrs node) ''begin'') = Inr starts \<and>
           ini' \<noteq> [] \<and> t_name (last ini') = n_name node @ ''_steps'' \<and>
           t_vals (last ini') =
             (if steps = [] \<or> steps = [None] then replicate (length starts) (VInt 1)
              else map (\<lambda>x. case x of None \<Rightarrow> VInt 1 | Some k \<Rightarrow> VInt k) steps)"
proof -
  from ok obtain r where g: "get_inputs node kw = Inr r"
    by (cases "get_inputs node kw") (auto simp: convert_slice_def)
  obtain name input_nodes attrs where r: "r = (name, input_nodes, attrs)" by (cases r)
  have attrs: "attrs = n_attrs node" "name = n_name node" using g r get_inputs_attrs by blast+
  from ok g r obtain starts where b: "convert_string_to_list (map_of attrs ''begin'') = Inr starts"
    by (cases "convert_string_to_list (map_of attrs ''begin'')") (auto simp: convert_slice_def)
  from ok g r b obtain ends where en: "convert_string_to_list (map_of attrs ''end'') = Inr ends"
    by (cases "convert_string_to_list (map_of attrs ''end'')") (auto simp: convert_slice_def)
  have st': "convert_string_to_list (case map_of attrs ''step'' of None \<Rightarrow> Some ''[]'' | Some s \<Rightarrow> Some s) = Inr steps"
    using st attrs by (simp add: slice_steps_def)
  have one: "(length steps = Suc 0 \<and> steps ! 0 = None) = (steps = [None])"
    by (cases steps) auto
  have "ini' \<noteq> [] \<and> t_name (last ini') = name @ ''_steps'' \<and>
           t_vals (last ini') =
             (if steps = [] \<or> steps = [None] then replicate (length starts) (VInt 1)
              else map (\<lambda>x. case x of None \<Rightarrow> VInt 1 | Some k \<Rightarrow> VInt k) steps)"
    using ok g r b en st'
    by (auto simp: convert_slice_def Let_def sbind_assoc sbind_create_tensor sbind_slift_cases one
          map_replicate_const comp_def sraise_def sreturn_def
          split: if_splits sum.splits prod.splits option.splits)
  then show ?thesis using b attrs by blast
qed

text \<open>
  Claim C8. A slice node whose parsed step list holds a negative entry makes the slice
  rule raise, with the initializer list untouched and so with no node emitted; when the
  node is otherwise well formed (its inputs resolve, begin and end parse and are as long
  as the step list) the exception is the one that says negative steps are unsupported.
  When the rule does return, the step tensor it stores holds 1 at every position for an
  absent (or single null) step list, and 1 in place of every null entry otherwise.
  An L2Normalization node whose mode is not \<^verbatim>\<open>channel\<close> (an absent mode reads as
  \<^verbatim>\<open>instance\<close>) makes its rule raise, again with the initializer list untouched;
  when the node's inputs resolve the exception is the one that says only channel mode is
  supported.
\<close>

theorem rejects_unsupported:
  fixes np :: "'f numpy" and kw :: "'f kwargs"
  shows
   "(slice_steps node = Inr steps \<and> Some k \<in> set steps \<and> k < 0 \<longrightarrow>
       (\<exists>e. convert_slice np node kw = (Inl e, kw_initializer kw)) \<and>
       (slice_well_formed node kw (length steps) \<longrightarrow>
          convert_slice np node kw =
            (Inl (NotImplementedError ''slice operator does not support negative steps yet''),
             kw_initializer kw))) \<and>
    (slice_steps node = Inr steps \<and> convert_slice np node kw = (Inr nodes, ini) \<longrightarrow>
       (\<exists>starts. convert_string_to_list (map_of (n_attrs node) ''begin'') = Inr starts \<and>
          ini \<noteq> [] \<and> t_name (last ini) = n_name node @ ''_steps'' \<and>
          t_vals (last ini) =
            (if steps = [] \<or> steps = [None] then replicate (length starts) (VInt 1)
             else map (\<lambda>x. case x of None \<Rightarrow> VInt 1 | Some k \<Rightarrow> VInt k) steps))) \<and>
    (map_of (n_attrs node) ''mode'' \<noteq> Some ''channel'' \<longrightarrow>
       (\<exists>e. convert_l2normalization node kw = (Inl e, kw_initializer kw)) \<and>
       ((\<exists>r. get_inputs node kw = Inr r) \<longrightarrow>
          convert_l2normalization node kw =
            (Inl (AttributeError ''L2Normalization: ONNX currently supports channel mode only''),
             kw_initializer kw)))"
  using convert_slice_negative[of node steps k np kw]
        convert_slice_negative_wf[of node steps k kw np]
        convert_slice_steps_default[of np node kw nodes ini steps]
        convert_l2normalization_rejects[of node kw]
  by blast

theorem rejects_unsupported_witness:
  "slice_steps (node0 ''s'' ''slice'' [(0, 0)]
       [(''begin'', ''(0, 0)''), (''end'', ''(2, None)''), (''step'', ''(1, -1)'')]) =
     Inr [Some 1, Some (- 1)] \<and>
   slice_well_formed (node0 ''s'' ''slice'' [(0, 0)]
       [(''begin'', ''(0, 0)''), (''end'', ''(2, None)''), (''step'', ''(1, -1)'')]) kw0 2 \<and>
   convert_slice np_exact (node0 ''s'' ''slice'' [(0, 0)]
       [(''begin'', ''(0, 0)''), (''end'', ''(2, None)''), (''step'', ''(1, -1)'')]) kw0 =
     (Inl (NotImplementedError ''slice operator does not support negative steps yet''),
      kw_initializer kw0) \<and>
   slice_steps (node0 ''s'' ''slice'' [(0, 0)] [(''begin'', ''(0, 0)''), (''end'', ''(2, None)'')]) =
     Inr [] \<and>
   (\<exists>nodes ini.
      convert_slice np_exact (node0 ''s'' ''slice'' [(0, 0)]
          [(''begin'', ''(0, 0)''), (''end'', ''(2, None)'')]) kw0 = (Inr nodes, ini) \<and>
      t_vals (last ini) = [VInt 1, VInt 1]) \<and>
   map_of (n_attrs (node0 ''n'' ''L2Normalization'' [(0, 0)] [(''mode'', ''spatial'')])) ''mode''
     \<noteq> Some ''channel'' \<and>
   convert_l2normalization (node0 ''n'' ''L2Normalization'' [(0, 0)] [(''mode'', ''spatial'')]) kw0 =
     (Inl (AttributeError ''L2Normalization: ONNX currently supports channel mode only''),
      kw_initializer kw0)"
proof -
  let ?neg = "node0 ''s'' ''slice'' [(0, 0)]
       [(''begin'', ''(0, 0)''), (''end'', ''(2, None)''), (''step'', ''(1, -1)'')]"
  let ?dflt = "node0 ''s'' ''slice'' [(0, 0)] [(''begin'', ''(0, 0)''), (''end'', ''(2, None)'')]"
  let ?l2 = "node0 ''n'' ''L2Normalization'' [(0, 0)] [(''mode'', ''spatial'')]"
  have s1: "slice_steps ?neg = Inr [Some 1, Some (- 1)]" by code_simp
  have g1: "get_inputs ?neg kw0 = Inr (''s'', [''data''], n_attrs ?neg)" by code_simp
  have b1: "convert_string_to_list (map_of (n_attrs ?neg) ''begin'') = Inr [Some 0, Some 0]"
    by code_simp
  have e1: "convert_string_to_list (map_of (n_attrs ?neg) ''end'') = Inr [Some 2, None]"
    by code_simp
  have wf: "slice_well_formed ?neg kw0 2"
    unfolding slice_well_formed_def using g1 b1 e1 by simp
  have r1: "convert_slice np_exact ?neg kw0 =
     (Inl (NotImplementedError ''slice operator does not support negative steps yet''),
      kw_initializer kw0)"
  proof -
    have wf': "slice_well_formed ?neg kw0 (length [Some 1, Some (- 1 :: int)])" using wf by (simp add: numeral_2_eq_2)
    have m: "Some (- 1 :: int) \<in> set [Some 1, Some (- 1)]" "(- 1 :: int) < 0" by simp_all
    show ?thesis
      using rejects_unsupported[of ?neg "[Some 1, Some (- 1)]" "- 1" np_exact kw0] s1 wf' m by blast
  qed
  have s2: "slice_steps ?dflt = Inr []" by code_simp
  have b2: "convert_string_to_list (map_of (n_attrs ?dflt) ''begin'') = Inr [Some 0, Some 0]"
    by code_simp
  have "\<not> isl (fst (convert_slice np_exact ?dflt kw0))" by code_simp
  then obtain nodes ini where ok: "convert_slice np_exact ?dflt kw0 = (Inr nodes, ini)"
    by (cases "convert_slice np_exact ?dflt kw0"; cases "fst (convert_slice np_exact ?dflt kw0)") auto
  have r2: "t_vals (last ini) = [VInt 1, VInt 1]"
  proof -
    from rejects_unsupported[of ?dflt "[]" _ np_exact kw0 nodes ini] s2 ok
    obtain starts where st: "convert_string_to_list (map_of (n_attrs ?dflt) ''begin'') = Inr starts"
      and v: "t_vals (last ini) = (if ([] :: int option list) = [] \<or> ([] :: int option list) = [None]
               then replicate (length starts) (VInt 1)
               else map (\<lambda>x. case x of None \<Rightarrow> VInt 1 | Some k \<Rightarrow> VInt k) [])"
      by blast
    from st b2 have "starts = [Some 0, Some 0]" by simp
    with v show ?thesis by (simp add: numeral_2_eq_2)
  qed
  have m3: "map_of (n_attrs ?l2) ''mode'' \<noteq> Some ''channel''" by (simp add: node0_def)
  have g3: "get_inputs ?l2 kw0 = Inr (''n'', [''data''], n_attrs ?l2)" by code_simp
  have r3: "convert_l2normalization ?l2 kw0 =
     (Inl (AttributeError ''L2Normalization: ONNX currently supports channel mode only''),
      kw_initializer kw0)"
    using rejects_unsupported[of ?l2 _ _ np_exact kw0] m3 g3 by blast
  show ?thesis using s1 wf r1 s2 ok r2 m3 r3 by blast
qed

subsection \<open>The version gate\<close>

lemma arange_ge11:
  "\<not> kw_opset_version kw < 11 \<Longrightarrow> fst (convert_arange np node kw) \<noteq> Inl opset11_required"
  unfolding convert_arange_def
  by (rule never_raisesD, intro nr_intros) (simp_all add: opset11_required_def)

lemma arange_like_ge11:
  "\<not> kw_opset_version kw < 11 \<Longrightarrow> fst (convert_arange_like np node kw) \<noteq> Inl opset11_required"
  unfolding convert_arange_like_def
  by (rule never_raisesD, intro nr_intros) (simp_all add: opset11_required_def)

lemma bilinear_ge11:
  "\<not> kw_opset_version kw < 11 \<Longrightarrow>
   fst (convert_contrib_BilinearResize2D np node kw) \<noteq> Inl opset11_required"
  unfolding convert_contrib_BilinearResize2D_def
  by (rule never_raisesD, intro nr_intros) (simp_all add: opset11_required_def)

lemma repeat_ge11:
  "\<not> kw_opset_version kw < 11 \<Longrightarrow> fst (convert_repeat np node kw) \<noteq> Inl opset11_required"
  unfolding convert_repeat_def
  by (rule never_raisesD, intro nr_intros) (simp_all add: opset11_required_def)

lemma version_gate_lt11:
  assumes "kw_opset_version kw < 11"
  shows "\<exists>e. convert_arange np node kw = (Inl e, kw_initializer kw)"
    and "\<exists>e. convert_arange_like np node kw = (Inl e, kw_initializer kw)"
    and "\<exists>e. convert_contrib_BilinearResize2D np node kw = (Inl e, kw_initializer kw)"
    and "\<exists>e. convert_repeat np node kw = (Inl e, kw_initializer kw)"
  using assms
  by (cases "get_inputs node kw";
      simp add: convert_arange_def convert_arange_like_def convert_contrib_BilinearResize2D_def
        convert_repeat_def Let_def sraise_def split: prod.splits)+

lemma version_gate_lt11_resolved:
  assumes "kw_opset_version kw < 11" "get_inputs node kw = Inr r"
  shows "convert_arange np node kw = (Inl opset11_required, kw_initializer kw)"
    and "convert_arange_like np node kw = (Inl opset11_required, kw_initializer kw)"
    and "convert_contrib_BilinearResize2D np node kw = (Inl opset11_required, kw_initializer kw)"
    and "convert_repeat np node kw = (Inl opset11_required, kw_initializer kw)"
  using assms
  by (simp_all add: convert_arange_def convert_arange_like_def
        convert_contrib_BilinearResize2D_def convert_repeat_def Let_def sraise_def
        split: prod.splits)

text \<open>
  Claim C7. Each of the rules for \<^verbatim>\<open>_arange\<close>, \<^verbatim>\<open>_contrib_arange_like\<close>,
  \<^verbatim>\<open>_contrib_BilinearResize2D\<close> and \<^verbatim>\<open>repeat\<close> raises the version-requirement
  error if and only if the target version is below 11 (for a node whose inputs resolve;
  a node whose inputs do not resolve fails earlier, at any version). Below version 11 the
  rule raises before it has appended an initializer or returned a node; at version 11 or
  above it never raises the version error.
\<close>

theorem version_gate:
  "version_gated (convert_arange np) node kw \<and>
   version_gated (convert_arange_like np) node kw \<and>
   version_gated (convert_contrib_BilinearResize2D np) node kw \<and>
   version_gated (convert_repeat np) node kw"
  unfolding version_gated_def
  using arange_ge11[of kw np node] arange_like_ge11[of kw np node] bilinear_ge11[of kw np node]
    repeat_ge11[of kw np node] version_gate_lt11[of kw np node]
    version_gate_lt11_resolved[of kw node _ np]
  by blast

theorem version_gate_witness:
  "kw_opset_version (kw0\<lparr>kw_opset_version := 10\<rparr>) < 11 \<and>
   get_inputs (node0 ''r'' ''repeat'' [(0, 0)] [(''repeats'', ''2'')])
     (kw0\<lparr>kw_opset_version := 10\<rparr>) =
     Inr (''r'', [''data''], [(''repeats'', ''2'')]) \<and>
   convert_arange np_exact (node0 ''r'' ''repeat'' [(0, 0)] [(''repeats'', ''2'')])
     (kw0\<lparr>kw_opset_version := 10\<rparr>) = (Inl opset11_required, kw_initializer kw0) \<and>
   convert_arange_like np_exact (node0 ''r'' ''repeat'' [(0, 0)] [(''repeats'', ''2'')])
     (kw0\<lparr>kw_opset_version := 10\<rparr>) = (Inl opset11_required, kw_initializer kw0) \<and>
   convert_contrib_BilinearResize2D np_exact (node0 ''r'' ''repeat'' [(0, 0)] [(''repeats'', ''2'')])
     (kw0\<lparr>kw_opset_version := 10\<rparr>) = (Inl opset11_required, kw_initializer kw0) \<and>
   convert_repeat np_exact (node0 ''r'' ''repeat'' [(0, 0)] [(''repeats'', ''2'')])
     (kw0\<lparr>kw_opset_version := 10\<rparr>) = (Inl opset11_required, kw_initializer kw0) \<and>
   fst (convert_repeat np_exact (node0 ''r'' ''repeat'' [(0, 0)] [(''repeats'', ''2'')])
     (kw0\<lparr>kw_opset_version := 10\<rparr>)) = Inl opset11_required"
proof -
  let ?n = "node0 ''r'' ''repeat'' [(0, 0)] [(''repeats'', ''2'')]"
  let ?kw = "kw0\<lparr>kw_opset_version := 10\<rparr>"
  have v: "kw_opset_version ?kw < 11" by simp
  have g: "get_inputs ?n ?kw = Inr (''r'', [''data''], [(''repeats'', ''2'')])" by code_simp
  have i: "kw_initializer ?kw = kw_initializer kw0" by simp
  from g have ex: "\<exists>r. get_inputs ?n ?kw = Inr r" by blast
  show ?thesis
    using version_gate[of np_exact ?n ?kw] v g ex
    unfolding version_gated_def i by simp
qed

lemma version_gate_proceeds:
  "\<not> isl (fst (convert_arange np_exact
      (node0 ''r'' ''_arange'' [] [(''start'', ''0''), (''stop'', ''5'')]) kw0))"
  "\<not> isl (fst (convert_arange_like np_exact
      (node0 ''r'' ''_contrib_arange_like'' [(0, 0)] [(''axis'', ''-1'')]) kw0))"
  "\<not> isl (fst (convert_contrib_BilinearResize2D np_exact
      (node0 ''r'' ''_contrib_BilinearResize2D'' [(0, 0)] [(''height'', ''2''), (''width'', ''3'')])
      kw0))"
  "\<not> isl (fst (convert_repeat np_exact
      (node0 ''r'' ''repeat'' [(0, 0)] [(''repeats'', ''2''), (''axis'', ''-1'')]) kw0))"
  by code_simp+

subsection \<open>Scalar-constant fusion\<close>







subsection \<open>The masked softmax\<close>


lemma np_elems_int64_small:
  "list_all (\<lambda>i. - (2 ^ 63) \<le> i \<and> i < 2 ^ 63) xs \<Longrightarrow>
   np_elems np INT64 (map VInt xs) = Inr (map VInt xs)"
  by (induction xs) (auto simp: np_elem_def)





subsection \<open>Half-precision constants\<close>

text \<open>\<^verbatim>\<open>create_tensor\<close> stores a half-precision tensor as the \<^verbatim>\<open>uint16\<close> view of the
  converted array, and the \<^verbatim>\<open>_greater_scalar\<close> rule does the same for its scalar.\<close>

lemma create_tensor_float16:
  "create_tensor np xs nm FLOAT16 ini = (Inr v, ini') \<Longrightarrow>
   \<exists>ws. np_elems np FLOAT16 xs = Inr ws \<and>
     ini' = ini @ [\<lparr>t_name = nm, t_data_type = FLOAT16, t_dims = [length xs],
                    t_vals = map (\<lambda>x. VU16 (np_view_uint16 np x)) ws\<rparr>] \<and>
     list_all is_u16 (t_vals (last ini'))"
  by (auto simp: create_tensor_def np_array_def ebind_def Let_def list_all_iff split: sum.splits)

lemma greater_scalar_float16:
  assumes "kw_in_type kw = FLOAT16" "convert_greater_scalar np node kw = (Inr nodes, ini)"
  shows "\<exists>x h. map_of (n_attrs node) ''scalar'' = Some x \<and> py_float np x = Some h \<and>
           (\<exists>h'. np_elem np FLOAT16 (VFloat h) = Inr h' \<and>
             nodes ! 1 = make_node ''ConstantOfShape'' [n_name node @ ''_shape'']
               [n_name node @ ''_rhs''] None
               [(''value'', ATensor \<lparr>t_name = n_name node @ ''_scalar'', t_data_type = FLOAT16,
                   t_dims = [1], t_vals = [VU16 (np_view_uint16 np h')]\<rparr>)]) \<and>
           ini = kw_initializer kw"
proof -
  from assms(2) obtain r where g: "get_inputs node kw = Inr r"
    by (cases "get_inputs node kw") (auto simp: convert_greater_scalar_def)
  obtain name input_nodes attrs where r: "r = (name, input_nodes, attrs)" by (cases r)
  have attrs: "attrs = n_attrs node" "name = n_name node" using g r get_inputs_attrs by blast+
  show ?thesis
    using assms g r attrs
    by (auto simp: convert_greater_scalar_def Let_def is_int_type_def sbind_slift_cases
          sbind_assoc sreturn_def
          split: option.splits sum.splits if_splits)
qed

text \<open>
  Claim C9. The scalar-arithmetic rules do not take that care. For a multiply-by-scalar
  node lowered with the half-precision input type, the initializer that holds the scalar
  is declared half precision and stores the converted number itself, not its 16-bit
  pattern as an unsigned integer.
\<close>

theorem scalar_op_float16_native:
  "scalar_op_helper np_exact (node0 ''y'' ''_mul_scalar'' [(0, 0)] [(''scalar'', ''2'')]) ''Mul''
     (kw0\<lparr>kw_in_type := FLOAT16\<rparr>) =
   (Inr [ValueInfo ''scalar_op3'' FLOAT16 [1],
         make_node ''Mul'' [''data'', ''scalar_op3''] [''y''] (Some ''y'') []],
    kw_initializer kw0 @
      [\<lparr>t_name = ''scalar_op3'', t_data_type = FLOAT16, t_dims = [1], t_vals = [VFloat 2]\<rparr>])"
  by code_simp

subsection \<open>The naming contract\<close>

lemma final_output_simps [simp]:
  "final_output (xs @ [make_node op ins (out # outs) nm kw]) = Some out"
  "final_output [make_node op ins (out # outs) nm kw] = Some out"
  "final_output (x # y # ys) = final_output (y # ys)"
  "final_output [ValueInfo v t sh] = None"
  by (simp_all add: final_output_def make_node_def)























end
